theory Spec2Isabelle
  imports Complex_Main "HOL-Library.Sublist"
begin

section \<open>SNS registration app: domain manager and wallet manager\<close>

text \<open>
  A shallow embedding of \<^verbatim>\<open>src/js/domain.js\<close> (class DomainManager), of the
  wallet manager (class WalletManager) and of the registration handler of
  \<^verbatim>\<open>src/js/app.js\<close> together with the progress-step methods of \<^verbatim>\<open>src/js/ui.js\<close>.

  JavaScript strings are modelled as \<^typ>\<open>string\<close> (lists of 8-bit characters; every name
  that passes validation is ASCII). JavaScript numbers are IEEE 754 doubles: the model
  holds each number as the rational it denotes and rounds the result of every arithmetic
  operation to the nearest double, ties to even.
\<close>

subsection \<open>String helpers of the JavaScript runtime\<close>

text \<open>\<^verbatim>\<open>s.startsWith(p)\<close>, \<^verbatim>\<open>s.endsWith(p)\<close> and \<^verbatim>\<open>s.includes(p)\<close>.\<close>

definition startsWith :: "string \<Rightarrow> string \<Rightarrow> bool" where
  "startsWith s p = (take (length p) s = p)"

definition endsWith :: "string \<Rightarrow> string \<Rightarrow> bool" where
  "endsWith s p = (length p \<le> length s \<and> drop (length s - length p) s = p)"

fun includes_str :: "string \<Rightarrow> string \<Rightarrow> bool" where
  "includes_str [] p = (p = [])"
| "includes_str (c # cs) p = (startsWith (c # cs) p \<or> includes_str cs p)"

subsection \<open>Numbers of the JavaScript runtime\<close>

text \<open>The number of binary digits of a positive integer.\<close>

function bitLength :: "int \<Rightarrow> nat" where
  "bitLength p = (if p \<le> 0 then 0 else Suc (bitLength (p div 2)))"
  by pat_completeness auto
termination
  by (relation "measure nat") auto

declare bitLength.simps [simp del]

definition pow2 :: "int \<Rightarrow> rat" where
  "pow2 e = (if 0 \<le> e then 2 ^ nat e else 1 / 2 ^ nat (- e))"

text \<open>The exponent of a positive rational: the largest \<open>k\<close> with \<open>2^k \<le> x\<close>.\<close>

definition floorLog2 :: "rat \<Rightarrow> int" where
  "floorLog2 x =
     (let (p, q) = quotient_of x;
          k = int (bitLength p) - int (bitLength q)
      in if pow2 k \<le> x then k else k - 1)"

definition roundHalfEven :: "rat \<Rightarrow> int" where
  "roundHalfEven m =
     (let r = \<lfloor>m\<rfloor>; d = m - of_int r
      in if d < 1 / 2 then r else if 1 / 2 < d then r + 1 else if even r then r else r + 1)"

text \<open>
  The double nearest to a rational: a significand of 53 binary digits, exponents from
  -1074 on (subnormal numbers included), ties to the even significand. Numbers beyond
  the largest double, NaN and negative zero do not arise from the prices and balances of
  this program and are not modelled. A decimal literal of the source, such as
  \<^verbatim>\<open>0.05\<close>, denotes \<open>toDouble (5 / 100)\<close>.
\<close>

definition toDouble :: "rat \<Rightarrow> rat" where
  "toDouble x =
     (if x = 0 then 0
      else (let a = \<bar>x\<bar>;
                e = max (floorLog2 a - 52) (- 1074);
                m = roundHalfEven (a / pow2 e)
            in sgn x * of_int m * pow2 e))"

text \<open>\<^verbatim>\<open>a + b\<close>, \<^verbatim>\<open>a * b\<close> and \<^verbatim>\<open>a / b\<close> on numbers.\<close>

definition jsAdd :: "rat \<Rightarrow> rat \<Rightarrow> rat" where
  "jsAdd a b = toDouble (a + b)"

definition jsMul :: "rat \<Rightarrow> rat \<Rightarrow> rat" where
  "jsMul a b = toDouble (a * b)"

definition jsDiv :: "rat \<Rightarrow> rat \<Rightarrow> rat" where
  "jsDiv a b = toDouble (a / b)"

subsection \<open>DomainManager: validation\<close>

text \<open>The object \<^verbatim>\<open>{ isValid, error }\<close> returned by validateDomainName.\<close>

record validation =
  isValid :: bool
  error :: "string option"

definition invalid :: "string \<Rightarrow> validation" where
  "invalid msg = \<lparr>isValid = False, error = Some msg\<rparr>"

definition valid :: validation where
  "valid = \<lparr>isValid = True, error = None\<rparr>"

text \<open>One character of the class \<^verbatim>\<open>[a-z0-9-]\<close>: two code-unit ranges and the hyphen.\<close>

definition inCharClass :: "char \<Rightarrow> bool" where
  "inCharClass c =
     ((97 \<le> (of_char c :: nat) \<and> (of_char c :: nat) \<le> 122)
      \<or> (48 \<le> (of_char c :: nat) \<and> (of_char c :: nat) \<le> 57)
      \<or> c = CHR ''-'')"

text \<open>\<^verbatim>\<open>/^[a-z0-9-]+$/.test(domain)\<close>: one or more characters, all of the class.\<close>

definition validCharRegex_test :: "string \<Rightarrow> bool" where
  "validCharRegex_test domain = (domain \<noteq> [] \<and> list_all inCharClass domain)"

definition validateDomainName :: "string \<Rightarrow> validation" where
  "validateDomainName domain =
     (if domain = [] then invalid ''Domain name is required''
      else if length domain < 1 then invalid ''Domain name must be at least 1 character''
      else if length domain > 32 then invalid ''Domain name cannot exceed 32 characters''
      else if \<not> validCharRegex_test domain
        then invalid ''Domain name can only contain lowercase letters, numbers, and hyphens''
      else if startsWith domain ''-'' \<or> endsWith domain ''-''
        then invalid ''Domain name cannot start or end with a hyphen''
      else if includes_str domain ''--''
        then invalid ''Domain name cannot contain consecutive hyphens''
      else valid)"

text \<open>
  The rules of the specification, in its words and in its order: empty; longer than 32;
  a character outside the listed alphabet; a leading or trailing hyphen; a doubled hyphen.
\<close>

definition rule_empty :: "string \<Rightarrow> bool" where
  "rule_empty d = (d = [])"

definition rule_too_long :: "string \<Rightarrow> bool" where
  "rule_too_long d = (32 < length d)"

definition rule_bad_char :: "string \<Rightarrow> bool" where
  "rule_bad_char d = (\<exists>c \<in> set d. c \<notin> set ''abcdefghijklmnopqrstuvwxyz0123456789-'')"

definition rule_edge_hyphen :: "string \<Rightarrow> bool" where
  "rule_edge_hyphen d = (d \<noteq> [] \<and> (hd d = CHR ''-'' \<or> last d = CHR ''-''))"

definition rule_double_hyphen :: "string \<Rightarrow> bool" where
  "rule_double_hyphen d =
     (\<exists>i < length d - 1. d ! i = CHR ''-'' \<and> d ! Suc i = CHR ''-'')"

definition spec_rules :: "((string \<Rightarrow> bool) \<times> string) list" where
  "spec_rules =
     [(rule_empty, ''Domain name is required''),
      (rule_too_long, ''Domain name cannot exceed 32 characters''),
      (rule_bad_char, ''Domain name can only contain lowercase letters, numbers, and hyphens''),
      (rule_edge_hyphen, ''Domain name cannot start or end with a hyphen''),
      (rule_double_hyphen, ''Domain name cannot contain consecutive hyphens'')]"

text \<open>First failure wins: the message of the first rule of the list that the name breaks.\<close>

definition first_failure :: "string \<Rightarrow> string option" where
  "first_failure d = map_option snd (find (\<lambda>r. fst r d) spec_rules)"

subsection \<open>DomainManager: pricing\<close>

text \<open>
  The constructor's \<^verbatim>\<open>this.pricing\<close> object (keys 1 to 4 and \<^verbatim>\<open>default\<close>) and
  \<^verbatim>\<open>this.networkFee\<close>.
\<close>

record pricingTable =
  tier1 :: rat
  tier2 :: rat
  tier3 :: rat
  tier4 :: rat
  default :: rat

definition pricing :: pricingTable where
  "pricing = \<lparr>tier1 = toDouble (5 / 100), tier2 = toDouble (5 / 100),
              tier3 = toDouble (1 / 10), tier4 = toDouble (5 / 100),
              default = toDouble (2 / 100)\<rparr>"

definition networkFee :: rat where
  "networkFee = toDouble (1 / 1000)"

text \<open>
  The computed read \<^verbatim>\<open>this.pricing[length]\<close>: the object has the keys 1 to 4, every
  other number reads as undefined (None).
\<close>

definition pricingAt :: "nat \<Rightarrow> rat option" where
  "pricingAt k =
     (if k = 1 then Some (tier1 pricing)
      else if k = 2 then Some (tier2 pricing)
      else if k = 3 then Some (tier3 pricing)
      else if k = 4 then Some (tier4 pricing)
      else None)"

text \<open>\<^verbatim>\<open>a || b\<close> on a number or undefined: undefined and 0 are falsy.\<close>

definition orElse :: "rat option \<Rightarrow> rat \<Rightarrow> rat" where
  "orElse a b = (case a of None \<Rightarrow> b | Some p \<Rightarrow> if p = 0 then b else p)"

definition calculatePrice :: "string \<Rightarrow> rat" where
  "calculatePrice domainName =
     (let len = length domainName in
      if len \<le> 2 then orElse (pricingAt len) (default pricing)
      else if len = 3 then tier3 pricing
      else if len = 4 then tier4 pricing
      else default pricing)"

text \<open>The tier table of the specification, by exact length (no tier for length 0).\<close>

definition tier_table :: "nat \<Rightarrow> rat option" where
  "tier_table n =
     (if n = 1 then Some (toDouble (5 / 100))
      else if n = 2 then Some (toDouble (5 / 100))
      else if n = 3 then Some (toDouble (1 / 10))
      else if n = 4 then Some (toDouble (5 / 100))
      else if 5 \<le> n then Some (toDouble (2 / 100))
      else None)"

text \<open>
  Lines 67 to 68 of domain.js: \<^verbatim>\<open>basePrice = this.calculatePrice(domainName)\<close>,
  \<^verbatim>\<open>totalPrice = basePrice + this.networkFee\<close>.
\<close>

record priceQuote =
  basePrice :: rat
  quoteFee :: rat
  totalPrice :: rat

definition quotePrice :: "string \<Rightarrow> priceQuote" where
  "quotePrice domainName =
     (let base = calculatePrice domainName;
          total = jsAdd base networkFee
      in \<lparr>basePrice = base, quoteFee = networkFee, totalPrice = total\<rparr>)"

subsection \<open>Errors, wallet manager state and the outside world\<close>

text \<open>
  A thrown \<^verbatim>\<open>Error\<close> object: its message and, for wallet errors, its numeric code.
  Values thrown by the external libraries are taken to be such objects.
\<close>

datatype jserror = JsError (message: string) (errcode: "int option")

type_synonym pubkey = string

text \<open>The injected wallet object \<^verbatim>\<open>window.solana\<close>.\<close>

datatype walletObj = WindowSolana

text \<open>The fields of WalletManager; \<^verbatim>\<open>connection\<close> holds the endpoint of the Connection.\<close>

record walletManager =
  wallet :: "walletObj option"
  connection :: "string option"
  publicKey :: "pubkey option"
  isConnected :: bool
  currentNetwork :: string

record transaction =
  fromPubkey :: "pubkey option"
  toPubkey :: string
  lamports :: int
  recentBlockhash :: "string option"
  feePayer :: "pubkey option"

text \<open>
  A promise of an external call: it settles after some milliseconds with a value or an
  error, or it stays pending for ever.
\<close>

datatype 'a timed = Settles nat "jserror + 'a" | Pending

text \<open>
  \<^verbatim>\<open>Promise.race([p, timeoutPromise])\<close> with a timer of \<open>ms\<close> milliseconds that rejects
  with \<open>e\<close>: the call wins when it settles before the timer fires.
\<close>

definition race :: "nat \<Rightarrow> jserror \<Rightarrow> 'a timed \<Rightarrow> jserror + 'a" where
  "race ms e p = (case p of Settles t r \<Rightarrow> if t < ms then r else Inl e | Pending \<Rightarrow> Inl e)"

text \<open>Events that the wallet extension fires at the listeners of the wallet manager.\<close>

datatype walletEvent = OnConnect pubkey | OnDisconnect | OnAccountChanged "pubkey option"

text \<open>
  The calls that leave the program, in the order in which they are made. A lookup of the
  name service is recorded with its answer.
\<close>

datatype event =
    EvGetVersion string
  | EvDispatch string
  | EvResolve "string option" string "jserror + pubkey option"
  | EvGetBalance
  | EvSleep nat
  | EvNewTransaction transaction
  | EvGetLatestBlockhash
  | EvSignTransaction transaction
  | EvSendRawTransaction transaction
  | EvConfirmTransaction string
  | EvWalletDisconnect

text \<open>
  The external capabilities. Each call reads the state \<open>'w\<close> of the outside world and
  returns its answer together with the next state, so that the same call can answer
  differently the next time. The last four fields are runtime functions whose text
  output the model does not fix: \<^verbatim>\<open>clusterApiUrl\<close>, the message of the TypeError raised
  by reading a property of null or undefined, \<^verbatim>\<open>String(x)\<close> and \<^verbatim>\<open>x.toFixed(n)\<close>.
\<close>

record 'w env =
  hasWindow :: bool
  listening :: bool
  sns_resolve :: "string option \<Rightarrow> string \<Rightarrow> 'w \<Rightarrow> (jserror + pubkey option) \<times> 'w"
  rpc_getVersion :: "string \<Rightarrow> 'w \<Rightarrow> string timed \<times> 'w"
  rpc_getBalance :: "string \<Rightarrow> pubkey option \<Rightarrow> 'w \<Rightarrow> (jserror + nat) \<times> 'w"
  rpc_getLatestBlockhash :: "string \<Rightarrow> 'w \<Rightarrow> (string \<times> nat) timed \<times> 'w"
  wallet_signTransaction :: "transaction \<Rightarrow> 'w \<Rightarrow> (jserror + transaction) \<times> 'w"
  rpc_sendRawTransaction :: "string \<Rightarrow> transaction \<Rightarrow> 'w \<Rightarrow> (jserror + string) \<times> 'w"
  rpc_confirmTransaction ::
    "string \<Rightarrow> string \<times> string \<times> nat \<Rightarrow> 'w \<Rightarrow> (jserror + string) \<times> 'w"
  wallet_disconnect :: "'w \<Rightarrow> ((jserror + unit) \<times> walletEvent list) \<times> 'w"
  clusterApiUrl :: "string \<Rightarrow> string"
  typeErrorMessage :: "string \<Rightarrow> string"
  numberToString :: "rat \<Rightarrow> string"
  toFixed :: "rat \<Rightarrow> nat \<Rightarrow> string"

subsection \<open>UIManager: the four progress steps\<close>

text \<open>The class list of one step element, as far as the source touches it.\<close>

record stepElement =
  cls_active :: bool
  cls_completed :: bool
  cls_error :: bool

datatype stepStatus = StatusActive | StatusCompleted

text \<open>
  The UI manager: the step elements \<^verbatim>\<open>step1\<close> to \<^verbatim>\<open>step4\<close>, the selected domain, the
  payment method, the last notification and the visibility of the status panel. The
  field \<open>frames\<close> is not in the source: it records which steps carry the class
  \<^verbatim>\<open>active\<close> after each operation that changes the class list of a step.
\<close>

record uiManager =
  steps :: "nat \<Rightarrow> stepElement"
  currentDomain :: "string option"
  paymentMethodValue :: string
  notification :: "(string \<times> string) option"
  statusHidden :: bool
  walletButton :: "(pubkey \<times> rat option) option"
  frames :: "nat list list"

definition activeSteps :: "uiManager \<Rightarrow> nat list" where
  "activeSteps u = filter (\<lambda>n. cls_active (steps u n)) [1, 2, 3, 4]"

definition observe :: "uiManager \<Rightarrow> uiManager" where
  "observe u = u\<lparr>frames := frames u @ [activeSteps u]\<rparr>"

definition clearStep :: "nat \<Rightarrow> uiManager \<Rightarrow> uiManager" where
  "clearStep n u = u\<lparr>steps := (steps u)(n := (steps u n)\<lparr>cls_active := False, cls_completed := False\<rparr>)\<rparr>"

definition resetTransactionSteps :: "uiManager \<Rightarrow> uiManager" where
  "resetTransactionSteps u = observe (fold clearStep [1, 2, 3, 4] u)"

definition setTransactionStep :: "nat \<Rightarrow> stepStatus \<Rightarrow> uiManager \<Rightarrow> uiManager" where
  "setTransactionStep stepNumber status u =
     (let el = (steps u stepNumber)\<lparr>cls_active := False, cls_completed := False\<rparr>;
          el' = (case status of
                   StatusActive \<Rightarrow> el\<lparr>cls_active := True\<rparr>
                 | StatusCompleted \<Rightarrow> el\<lparr>cls_completed := True\<rparr>)
      in observe (u\<lparr>steps := (steps u)(stepNumber := el')\<rparr>))"

definition showTransactionStatus :: "uiManager \<Rightarrow> uiManager" where
  "showTransactionStatus u =
     setTransactionStep 1 StatusActive (resetTransactionSteps (u\<lparr>statusHidden := False\<rparr>))"

definition showNotification :: "string \<Rightarrow> string \<Rightarrow> uiManager \<Rightarrow> uiManager" where
  "showNotification msg kind u = u\<lparr>notification := Some (msg, kind)\<rparr>"

text \<open>
  The first step that carries the class \<^verbatim>\<open>active\<close>, and 1 when none does. Of
  updateTransactionStatus the model keeps the step classes and the notification (its text
  without the emoji); the transaction details panel and the timer that resets the form
  after 15 seconds are left out.
\<close>

definition getCurrentActiveStep :: "uiManager \<Rightarrow> nat" where
  "getCurrentActiveStep u = (case activeSteps u of [] \<Rightarrow> 1 | n # _ \<Rightarrow> n)"

definition updateTransactionStatus_success :: "string \<Rightarrow> uiManager \<Rightarrow> uiManager" where
  "updateTransactionStatus_success network u =
     showNotification (''Domain registered successfully on '' @ network @ ''!'') ''success''
       (fold (\<lambda>step. setTransactionStep step StatusCompleted) [1, 2, 3, 4] u)"

definition updateTransactionStatus_error :: "string \<Rightarrow> uiManager \<Rightarrow> uiManager" where
  "updateTransactionStatus_error err u =
     (let currentStep = getCurrentActiveStep u;
          u1 = observe (u\<lparr>steps := (steps u)(currentStep :=
                 (steps u currentStep)\<lparr>cls_active := False, cls_error := True\<rparr>)\<rparr>)
      in showNotification (if err = [] then ''Transaction failed'' else err) ''error'' u1)"

subsection \<open>The state of the running application\<close>

record 'w sys =
  wm :: walletManager
  ui :: uiManager
  world :: 'w
  calls :: "event list"

definition emit :: "event \<Rightarrow> 'w sys \<Rightarrow> 'w sys" where
  "emit e s = s\<lparr>calls := calls s @ [e]\<rparr>"

text \<open>\<^verbatim>\<open>if (typeof window !== 'undefined') window.dispatchEvent(new CustomEvent(name))\<close>\<close>

definition dispatchEvent :: "'w env \<Rightarrow> string \<Rightarrow> 'w sys \<Rightarrow> 'w sys" where
  "dispatchEvent env name s = (if hasWindow env then emit (EvDispatch name) s else s)"

text \<open>\<^verbatim>\<open>await new Promise(resolve => setTimeout(resolve, ms))\<close>\<close>

definition delay :: "nat \<Rightarrow> 'w sys \<Rightarrow> 'w sys" where
  "delay ms s = emit (EvSleep ms) s"

subsection \<open>WalletManager: choosing an RPC endpoint\<close>

definition rpcEndpoints :: "'w env \<Rightarrow> string \<Rightarrow> string list" where
  "rpcEndpoints env network =
     (if network = ''mainnet''
      then [''https://rpc.ankr.com/solana'',
            ''https://solana-mainnet.g.alchemy.com/v2/demo'',
            ''https://api.mainnet-beta.solana.com'',
            ''https://mainnet.helius-rpc.com/?api-key='',
            ''https://solana-mainnet.rpc.extrnode.com'']
      else [''https://api.devnet.solana.com'', clusterApiUrl env ''devnet''])"

text \<open>
  The \<^verbatim>\<open>for (const endpoint of rpcEndpoints)\<close> loop with the throw that follows it. Each
  round opens a connection, races \<^verbatim>\<open>getVersion()\<close> against a timer of 3000 ms and, when
  the probe wins, stores the connection, announces the network and returns; an error of
  the round (of the constructor of the connection, of the probe or of the timer) is
  caught and logged, and the loop goes on. Dispatching the event does not throw.
\<close>

fun probeEndpoints :: "'w env \<Rightarrow> string \<Rightarrow> string list \<Rightarrow> 'w sys \<Rightarrow> (jserror + unit) \<times> 'w sys" where
  "probeEndpoints env network [] s =
     (Inl (JsError (''Failed to connect to '' @ network) None), s)"
| "probeEndpoints env network (endpoint # rest) s =
     (let (versionPromise, w1) = rpc_getVersion env endpoint (world s);
          s1 = emit (EvGetVersion endpoint) (s\<lparr>world := w1\<rparr>)
      in case race 3000 (JsError ''Connection timeout'' None) versionPromise of
           Inr version \<Rightarrow>
             (Inr (), dispatchEvent env ''networkChanged''
                        (s1\<lparr>wm := (wm s1)\<lparr>connection := Some endpoint\<rparr>\<rparr>))
         | Inl e \<Rightarrow> probeEndpoints env network rest s1)"

definition initializeConnection :: "'w env \<Rightarrow> string \<Rightarrow> 'w sys \<Rightarrow> (jserror + unit) \<times> 'w sys" where
  "initializeConnection env network s =
     probeEndpoints env network (rpcEndpoints env network)
       (s\<lparr>wm := (wm s)\<lparr>currentNetwork := network\<rparr>\<rparr>)"

text \<open>
  The words of the specification for one candidate: its probe succeeds within the
  timeout. The outside world moves on with every probe, whatever its outcome.
\<close>

definition probeSucceeds :: "'w env \<Rightarrow> string \<Rightarrow> 'w \<Rightarrow> bool" where
  "probeSucceeds env endpoint w =
     (case fst (rpc_getVersion env endpoint w) of
        Settles t (Inr v) \<Rightarrow> t < 3000
      | Settles t (Inl e) \<Rightarrow> False
      | Pending \<Rightarrow> False)"

fun worldAfterProbes :: "'w env \<Rightarrow> string list \<Rightarrow> 'w \<Rightarrow> 'w" where
  "worldAfterProbes env [] w = w"
| "worldAfterProbes env (endpoint # rest) w =
     worldAfterProbes env rest (snd (rpc_getVersion env endpoint w))"

text \<open>Candidate number \<open>i\<close> answers its probe, asked after the candidates before it.\<close>

definition reachable :: "'w env \<Rightarrow> string list \<Rightarrow> 'w \<Rightarrow> nat \<Rightarrow> bool" where
  "reachable env candidates w i =
     probeSucceeds env (candidates ! i) (worldAfterProbes env (take i candidates) w)"

subsection \<open>WalletManager: session events and disconnect\<close>

definition handleWalletConnect :: "'w env \<Rightarrow> pubkey \<Rightarrow> 'w sys \<Rightarrow> 'w sys" where
  "handleWalletConnect env pk s =
     dispatchEvent env ''walletConnected''
       (s\<lparr>wm := (wm s)\<lparr>publicKey := Some pk, isConnected := True\<rparr>\<rparr>)"

definition handleWalletDisconnect :: "'w env \<Rightarrow> 'w sys \<Rightarrow> 'w sys" where
  "handleWalletDisconnect env s =
     dispatchEvent env ''walletDisconnected''
       (s\<lparr>wm := (wm s)\<lparr>wallet := None, publicKey := None, isConnected := False\<rparr>\<rparr>)"

definition handleAccountChange :: "'w env \<Rightarrow> pubkey \<Rightarrow> 'w sys \<Rightarrow> 'w sys" where
  "handleAccountChange env pk s =
     dispatchEvent env ''walletAccountChanged'' (s\<lparr>wm := (wm s)\<lparr>publicKey := Some pk\<rparr>\<rparr>)"

text \<open>The three listeners installed by setupWalletEventListeners.\<close>

fun onWalletEvent :: "'w env \<Rightarrow> walletEvent \<Rightarrow> 'w sys \<Rightarrow> 'w sys" where
  "onWalletEvent env (OnConnect pk) s = handleWalletConnect env pk s"
| "onWalletEvent env OnDisconnect s = handleWalletDisconnect env s"
| "onWalletEvent env (OnAccountChanged (Some pk)) s = handleAccountChange env pk s"
| "onWalletEvent env (OnAccountChanged None) s = handleWalletDisconnect env s"

text \<open>
  \<^verbatim>\<open>try { if (this.wallet && this.isConnected) await this.wallet.disconnect() }\<close>
  \<^verbatim>\<open>catch (error) { console.error(..) } finally { this.handleWalletDisconnect() }\<close>.
  While the call is awaited the wallet may fire events at the listeners (when they were
  installed); a rejection of the call is logged and dropped.
\<close>

definition disconnect :: "'w env \<Rightarrow> 'w sys \<Rightarrow> 'w sys" where
  "disconnect env s =
     (let s1 =
        (if wallet (wm s) \<noteq> None \<and> isConnected (wm s)
         then (let (answer, w1) = wallet_disconnect env (world s);
                   s' = emit EvWalletDisconnect (s\<lparr>world := w1\<rparr>)
               in if listening env then fold (onWalletEvent env) (snd answer) s' else s')
         else s)
      in handleWalletDisconnect env s1)"

subsection \<open>WalletManager: balance\<close>

text \<open>
  \<^verbatim>\<open>this.connection.getBalance(this.publicKey, 'confirmed')\<close>: a TypeError when the
  connection is null, the answer of the RPC node (in lamports) otherwise.
\<close>

definition connection_getBalance :: "'w env \<Rightarrow> 'w sys \<Rightarrow> (jserror + nat) \<times> 'w sys" where
  "connection_getBalance env s =
     (case connection (wm s) of
        None \<Rightarrow> (Inl (JsError (typeErrorMessage env ''getBalance'') None), s)
      | Some c \<Rightarrow>
          (let (r, w1) = rpc_getBalance env c (publicKey (wm s)) (world s)
           in (r, emit EvGetBalance (s\<lparr>world := w1\<rparr>))))"

text \<open>
  The \<^verbatim>\<open>while (retries > 0)\<close> loop. The answer of the node is a number (the double
  nearest to the count of lamports), divided by \<^verbatim>\<open>1e9\<close> on success; the error is thrown
  again when the count reaches 0; leaving the loop by its condition would return
  undefined (None).
\<close>

fun balanceLoop :: "'w env \<Rightarrow> nat \<Rightarrow> 'w sys \<Rightarrow> (jserror + rat option) \<times> 'w sys" where
  "balanceLoop env 0 s = (Inr None, s)"
| "balanceLoop env (Suc retries) s =
     (case connection_getBalance env s of
        (Inr balance, s1) \<Rightarrow>
          (Inr (Some (jsDiv (toDouble (of_nat balance)) 1000000000)), s1)
      | (Inl e, s1) \<Rightarrow>
          if retries = 0 then (Inl e, s1)
          else balanceLoop env retries (delay 1000 s1))"

definition getBalance :: "'w env \<Rightarrow> 'w sys \<Rightarrow> (jserror + rat option) \<times> 'w sys" where
  "getBalance env s =
     (if \<not> isConnected (wm s) \<or> publicKey (wm s) = None then (Inr (Some 0), s)
      else case balanceLoop env 3 s of
             (Inl e, s1) \<Rightarrow> (Inr (Some 0), s1)
           | (Inr v, s1) \<Rightarrow> (Inr v, s1))"

subsection \<open>WalletManager: signing and sending\<close>

datatype sendResult =
  SendResult (sr_success: bool) (sr_signature: string) (sr_confirmation: string)
    (sr_network: string)

text \<open>The \<^verbatim>\<open>catch\<close> block of signAndSendTransaction: the error that is thrown instead.\<close>

definition mapTransactionError :: "jserror \<Rightarrow> jserror" where
  "mapTransactionError e =
     (if includes_str (message e) ''User rejected'' \<or> errcode e = Some 4001
        then JsError ''Transaction rejected by user'' None
      else if includes_str (message e) ''insufficient funds''
        then JsError ''Insufficient SOL balance for transaction'' None
      else if includes_str (message e) ''Timeout''
        then JsError ''Transaction timed out. Please try again.'' None
      else JsError (if message e = [] then ''Transaction failed'' else message e) None)"

text \<open>The \<^verbatim>\<open>try\<close> block of signAndSendTransaction.\<close>

definition signAndSend_try :: "'w env \<Rightarrow> transaction \<Rightarrow> 'w sys \<Rightarrow> (jserror + sendResult) \<times> 'w sys" where
  "signAndSend_try env tx s =
     (case connection (wm s) of
        None \<Rightarrow> (Inl (JsError (typeErrorMessage env ''getLatestBlockhash'') None), s)
      | Some c \<Rightarrow>
         (let (blockhashPromise, w1) = rpc_getLatestBlockhash env c (world s);
              s1 = emit EvGetLatestBlockhash (s\<lparr>world := w1\<rparr>)
          in case race 10000 (JsError ''Timeout getting blockhash'' None) blockhashPromise of
               Inl e \<Rightarrow> (Inl e, s1)
             | Inr (blockhash, lastValidBlockHeight) \<Rightarrow>
                (let tx1 = tx\<lparr>recentBlockhash := Some blockhash, feePayer := publicKey (wm s1)\<rparr>;
                     (signed, w2) = wallet_signTransaction env tx1 (world s1);
                     s2 = emit (EvSignTransaction tx1) (s1\<lparr>world := w2\<rparr>)
                 in case signed of
                      Inl e \<Rightarrow> (Inl e, s2)
                    | Inr signedTransaction \<Rightarrow>
                       (let (sent, w3) = rpc_sendRawTransaction env c signedTransaction (world s2);
                            s3 = emit (EvSendRawTransaction signedTransaction) (s2\<lparr>world := w3\<rparr>)
                        in case sent of
                             Inl e \<Rightarrow> (Inl e, s3)
                           | Inr signature \<Rightarrow>
                              (let (confirmed, w4) =
                                     rpc_confirmTransaction env c
                                       (signature, blockhash, lastValidBlockHeight) (world s3);
                                   s4 = emit (EvConfirmTransaction signature) (s3\<lparr>world := w4\<rparr>)
                               in case confirmed of
                                    Inl e \<Rightarrow> (Inl e, s4)
                                  | Inr confirmation \<Rightarrow>
                                      (Inr (SendResult True signature confirmation
                                              (currentNetwork (wm s4))), s4))))))"

definition signAndSendTransaction :: "'w env \<Rightarrow> transaction \<Rightarrow> 'w sys \<Rightarrow> (jserror + sendResult) \<times> 'w sys" where
  "signAndSendTransaction env tx s =
     (if \<not> isConnected (wm s) \<or> wallet (wm s) = None
      then (Inl (JsError ''Wallet not connected'' None), s)
      else case signAndSend_try env tx s of
             (Inl e, s1) \<Rightarrow> (Inl (mapTransactionError e), s1)
           | (Inr r, s1) \<Rightarrow> (Inr r, s1))"

definition getExplorerUrl :: "walletManager \<Rightarrow> string \<Rightarrow> string" where
  "getExplorerUrl w signature =
     (let baseUrl = (if currentNetwork w = ''devnet''
                     then ''https://explorer.solana.com/tx/''
                     else ''https://explorer.solana.com/tx/'');
          cluster = (if currentNetwork w = ''devnet'' then ''?cluster=devnet'' else [])
      in baseUrl @ signature @ cluster)"

subsection \<open>DomainManager: availability\<close>

text \<open>
  The three objects that checkDomainAvailability returns: \<^verbatim>\<open>{success: false, error}\<close>,
  \<^verbatim>\<open>{success: true, available: false, domain, owner, network}\<close> and
  \<^verbatim>\<open>{success: true, available: true, domain, basePrice, networkFee, totalPrice, network, priceUSD}\<close>.
\<close>

datatype availability =
    CheckFailed (cf_error: "string option")
  | Taken (tk_domain: string) (tk_owner: pubkey) (tk_network: string)
  | Free (fr_domain: string) (fr_quote: priceQuote) (fr_network: string) (fr_priceUSD: string)

text \<open>\<^verbatim>\<open>(solAmount * 100).toFixed(2)\<close>\<close>

definition convertSOLToUSD :: "'w env \<Rightarrow> rat \<Rightarrow> string" where
  "convertSOLToUSD env solAmount = toFixed env (jsMul solAmount 100) 2"

text \<open>
  The lookup \<^verbatim>\<open>resolve(this.connection, domainName)\<close> answers with an owner, with a falsy
  value, or throws. With a falsy answer the function runs past both \<^verbatim>\<open>return\<close>
  statements and yields undefined (None). Nothing in the inner handler throws, so the
  outer \<^verbatim>\<open>catch\<close> is never entered.
\<close>

definition checkDomainAvailability :: "'w env \<Rightarrow> string \<Rightarrow> 'w sys \<Rightarrow> availability option \<times> 'w sys" where
  "checkDomainAvailability env domainName s =
     (let validation = validateDomainName domainName in
      if \<not> isValid validation then (Some (CheckFailed (error validation)), s)
      else
        (let (answer, w1) = sns_resolve env (connection (wm s)) domainName (world s);
             s1 = emit (EvResolve (connection (wm s)) domainName answer) (s\<lparr>world := w1\<rparr>)
         in case answer of
              Inr (Some owner) \<Rightarrow> (Some (Taken domainName owner (currentNetwork (wm s1))), s1)
            | Inr None \<Rightarrow> (None, s1)
            | Inl resolveError \<Rightarrow>
                (let q = quotePrice domainName
                 in (Some (Free domainName q (currentNetwork (wm s1))
                             (convertSOLToUSD env (totalPrice q))), s1))))"

subsection \<open>DomainManager: registration\<close>

datatype registration =
  Registration (rg_success: bool) (rg_signature: string) (rg_domain: string) (rg_cost: rat)
    (rg_paymentMethod: string) (rg_network: string) (rg_explorerUrl: string)

text \<open>
  The message of the error thrown when the balance is too low:
  \<^verbatim>\<open>`Insufficient balance. You need ${totalCost} SOL but only have ${balance.toFixed(4)} SOL`\<close>
\<close>

definition insufficientBalance :: "'w env \<Rightarrow> rat \<Rightarrow> rat \<Rightarrow> jserror" where
  "insufficientBalance env totalCost balance =
     JsError (''Insufficient balance. You need '' @ numberToString env totalCost
              @ '' SOL but only have '' @ toFixed env balance 4 @ '' SOL'') None"

text \<open>
  Lines 121 to 149: build the transfer, sign and send it, and return the result object.
\<close>

definition buildAndSend :: "'w env \<Rightarrow> string \<Rightarrow> string \<Rightarrow> rat \<Rightarrow> 'w sys \<Rightarrow> (jserror + registration) \<times> 'w sys" where
  "buildAndSend env domainName paymentMethod totalCost s =
     (let tx = \<lparr>fromPubkey = publicKey (wm s),
                toPubkey = ''11111111111111111111111111111112'',
                lamports = \<lfloor>jsMul totalCost 1000000000\<rfloor>,
                recentBlockhash = None, feePayer = None\<rparr>;
          s1 = emit (EvNewTransaction tx) s
      in case signAndSendTransaction env tx s1 of
           (Inl e, s2) \<Rightarrow> (Inl e, s2)
         | (Inr result, s2) \<Rightarrow>
             if sr_success result
             then (Inr (Registration True (sr_signature result) domainName totalCost
                          paymentMethod (currentNetwork (wm s2))
                          (getExplorerUrl (wm s2) (sr_signature result))), s2)
             else (Inl (JsError ''Transaction failed'' None), s2))"

text \<open>
  The \<^verbatim>\<open>try\<close> block of registerDomain. Reading \<^verbatim>\<open>success\<close> of an undefined
  availability raises a TypeError; a comparison with an undefined balance is false.
\<close>

definition registerDomain_try :: "'w env \<Rightarrow> string \<Rightarrow> string \<Rightarrow> 'w sys \<Rightarrow> (jserror + registration) \<times> 'w sys" where
  "registerDomain_try env domainName paymentMethod s =
     (if \<not> isConnected (wm s) then (Inl (JsError ''Wallet not connected'' None), s)
      else
        (let validation = validateDomainName domainName in
         if \<not> isValid validation
         then (Inl (JsError (case error validation of None \<Rightarrow> [] | Some m \<Rightarrow> m) None), s)
         else
           (case checkDomainAvailability env domainName s of
              (None, s1) \<Rightarrow> (Inl (JsError (typeErrorMessage env ''success'') None), s1)
            | (Some (CheckFailed e), s1) \<Rightarrow>
                (Inl (JsError ''Domain is not available for registration'' None), s1)
            | (Some (Taken d owner n), s1) \<Rightarrow>
                (Inl (JsError ''Domain is not available for registration'' None), s1)
            | (Some (Free d q n usd), s1) \<Rightarrow>
                (let totalCost = totalPrice q in
                 case getBalance env s1 of
                   (Inl e, s2) \<Rightarrow> (Inl e, s2)
                 | (Inr None, s2) \<Rightarrow> buildAndSend env domainName paymentMethod totalCost s2
                 | (Inr (Some balance), s2) \<Rightarrow>
                     if balance < totalCost
                     then (Inl (insufficientBalance env totalCost balance), s2)
                     else buildAndSend env domainName paymentMethod totalCost s2))))"

text \<open>
  The \<^verbatim>\<open>catch\<close> block: \<^verbatim>\<open>throw new Error(error.message || 'Failed to register domain')\<close>.
\<close>

definition registerDomain :: "'w env \<Rightarrow> string \<Rightarrow> string \<Rightarrow> 'w sys \<Rightarrow> (jserror + registration) \<times> 'w sys" where
  "registerDomain env domainName paymentMethod s =
     (case registerDomain_try env domainName paymentMethod s of
        (Inl e, s1) \<Rightarrow>
          (Inl (JsError (if message e = [] then ''Failed to register domain'' else message e) None), s1)
      | (Inr r, s1) \<Rightarrow> (Inr r, s1))"

text \<open>The calls that construct, sign or broadcast a transaction.\<close>

fun isTransactionEvent :: "event \<Rightarrow> bool" where
  "isTransactionEvent (EvNewTransaction tx) = True"
| "isTransactionEvent EvGetLatestBlockhash = True"
| "isTransactionEvent (EvSignTransaction tx) = True"
| "isTransactionEvent (EvSendRawTransaction tx) = True"
| "isTransactionEvent (EvConfirmTransaction sg) = True"
| "isTransactionEvent e = False"

subsection \<open>DomainManager: suggestions\<close>

record suggestion =
  sg_domain :: string
  sg_price :: rat

text \<open>
  The loop over the suffixes with \<^verbatim>\<open>maxSuggestions = 3\<close>. An undefined availability
  raises a TypeError at \<^verbatim>\<open>availability.success\<close>, which the loop catches and logs.
\<close>

fun suggestLoop :: "'w env \<Rightarrow> string \<Rightarrow> string list \<Rightarrow> suggestion list \<Rightarrow> 'w sys \<Rightarrow> suggestion list \<times> 'w sys" where
  "suggestLoop env baseDomain [] suggestions s = (suggestions, s)"
| "suggestLoop env baseDomain (sfx # rest) suggestions s =
     (if length suggestions \<ge> 3 then (suggestions, s)
      else
        (let suggestion = baseDomain @ sfx in
         if isValid (validateDomainName suggestion)
         then (case checkDomainAvailability env suggestion s of
                 (Some (Free d q n usd), s1) \<Rightarrow>
                   suggestLoop env baseDomain rest
                     (suggestions @ [\<lparr>sg_domain = suggestion, sg_price = totalPrice q\<rparr>]) s1
               | (_, s1) \<Rightarrow> suggestLoop env baseDomain rest suggestions s1)
         else suggestLoop env baseDomain rest suggestions s))"

definition suffixes :: "string list" where
  "suffixes = [''1'', ''2'', ''x'']"

definition searchSimilarDomains :: "'w env \<Rightarrow> string \<Rightarrow> 'w sys \<Rightarrow> suggestion list \<times> 'w sys" where
  "searchSimilarDomains env baseDomain s = suggestLoop env baseDomain suffixes [] s"

subsection \<open>SNSRegistrationApp: the registration handler\<close>

definition onUi :: "(uiManager \<Rightarrow> uiManager) \<Rightarrow> 'w sys \<Rightarrow> 'w sys" where
  "onUi f s = s\<lparr>ui := f (ui s)\<rparr>"

text \<open>
  Lines 302 to 326 of app.js: what follows a registration that did not throw. An error
  thrown here is caught by the same handler as an error of the registration. Nothing
  outside this inner \<^verbatim>\<open>try\<close> throws, so the outer handler of the function is never
  entered.
\<close>

definition afterRegistration :: "'w env \<Rightarrow> registration \<Rightarrow> 'w sys \<Rightarrow> 'w sys" where
  "afterRegistration env result s =
     (let s1 = onUi (setTransactionStep 2 StatusCompleted) s;
          s2 = delay 2000 (onUi (setTransactionStep 3 StatusActive) s1);
          s3 = onUi (setTransactionStep 3 StatusCompleted) s2;
          s4 = delay 1000 (onUi (setTransactionStep 4 StatusActive) s3);
          s5 = onUi (updateTransactionStatus_success (rg_network result)) s4
      in case getBalance env s5 of
           (Inl e, s6) \<Rightarrow> onUi (updateTransactionStatus_error (message e)) s6
         | (Inr newBalance, s6) \<Rightarrow>
             (case publicKey (wm s6) of
                None \<Rightarrow> onUi (updateTransactionStatus_error (typeErrorMessage env ''toString'')) s6
              | Some pk \<Rightarrow> onUi (\<lambda>u. u\<lparr>walletButton := Some (pk, newBalance)\<rparr>) s6))"

text \<open>
  Lines 286 to 295 of app.js: show the status panel, run step 1 for one second, then
  complete it and activate step 2.
\<close>

definition startAttempt :: "'w sys \<Rightarrow> 'w sys" where
  "startAttempt s =
     (let s1 = onUi showTransactionStatus s;
          s2 = delay 1000 (onUi (setTransactionStep 1 StatusActive) s1);
          s3 = onUi (setTransactionStep 1 StatusCompleted) s2
      in onUi (setTransactionStep 2 StatusActive) s3)"

definition handleDomainRegistration :: "'w env \<Rightarrow> 'w sys \<Rightarrow> 'w sys" where
  "handleDomainRegistration env s =
     (if \<not> isConnected (wm s)
      then onUi (showNotification ''Please connect your wallet first'' ''warning'') s
      else
        (case currentDomain (ui s) of
           None \<Rightarrow> onUi (showNotification ''No domain selected'' ''error'') s
         | Some domainName \<Rightarrow>
             if domainName = [] then onUi (showNotification ''No domain selected'' ''error'') s
             else
               (let paymentMethod = paymentMethodValue (ui s)
                in case registerDomain env domainName paymentMethod (startAttempt s) of
                     (Inl registrationError, s5) \<Rightarrow>
                       onUi (updateTransactionStatus_error (message registrationError)) s5
                   | (Inr result, s5) \<Rightarrow> afterRegistration env result s5)))"

text \<open>
  The observable step sequence of an attempt: the frames recorded since it began, with
  consecutive equal frames read as one and the frames without an active step left out.
\<close>

definition newFrames :: "'w sys \<Rightarrow> 'w sys \<Rightarrow> nat list list" where
  "newFrames s s' = drop (length (frames (ui s))) (frames (ui s'))"

definition stepSequence :: "nat list list \<Rightarrow> nat list" where
  "stepSequence fs = concat (remdups_adj fs)"

subsection \<open>Observations and a sample environment\<close>

text \<open>The calls made between two states.\<close>

definition newCalls :: "'w sys \<Rightarrow> 'w sys \<Rightarrow> event list" where
  "newCalls s s' = drop (length (calls s)) (calls s')"

text \<open>
  A sample outside world, counted by the number of calls made so far, and a sample state
  of the application.
\<close>

definition stubEnv :: "nat env" where
  "stubEnv =
     \<lparr>hasWindow = True, listening = True,
      sns_resolve = (\<lambda>c name w.
         (if name = ''taken'' \<or> name = ''myname2'' then Inr (Some ''Owner1'')
          else Inl (JsError ''Account not found'' None),
          Suc w)),
      rpc_getVersion = (\<lambda>endpoint w.
         (if w = 0 then Pending else Settles 120 (Inr ''1.18''), Suc w)),
      rpc_getBalance = (\<lambda>c pk w.
         (if w < 10 then Inl (JsError ''fetch failed'' None)
          else if w < 100 then Inr 2000000000
          else if w < 200 then Inr 51000000
          else Inr 101000000,
          Suc w)),
      rpc_getLatestBlockhash = (\<lambda>c w.
         (if w < 20 then Settles 80 (Inr (''blockhash'', 100)) else Pending, Suc w)),
      wallet_signTransaction = (\<lambda>tx w.
         (if w < 15 then Inr tx else Inl (JsError ''User rejected the request.'' (Some 4001)),
          Suc w)),
      rpc_sendRawTransaction = (\<lambda>c tx w. (Inr ''signature'', Suc w)),
      rpc_confirmTransaction = (\<lambda>c strategy w. (Inr ''confirmed'', Suc w)),
      wallet_disconnect = (\<lambda>w. ((Inl (JsError ''wallet is locked'' None), [OnConnect ''Key2'']), Suc w)),
      clusterApiUrl = (\<lambda>cluster. ''https://api.devnet.solana.com''),
      typeErrorMessage = (\<lambda>property. ''Cannot read properties of null''),
      numberToString = (\<lambda>x. ''number''),
      toFixed = (\<lambda>x digits. ''number'')\<rparr>"

definition stubUi :: uiManager where
  "stubUi =
     \<lparr>steps = (\<lambda>n. \<lparr>cls_active = False, cls_completed = False, cls_error = False\<rparr>),
      currentDomain = Some ''myname'', paymentMethodValue = ''SOL'', notification = None,
      statusHidden = True, walletButton = None, frames = []\<rparr>"

definition stubSys :: "nat \<Rightarrow> nat sys" where
  "stubSys w =
     \<lparr>wm = \<lparr>wallet = Some WindowSolana, connection = Some ''https://rpc.ankr.com/solana'',
             publicKey = Some ''Key1'', isConnected = True, currentNetwork = ''mainnet''\<rparr>,
      ui = stubUi, world = w, calls = []\<rparr>"

definition stubTx :: transaction where
  "stubTx = \<lparr>fromPubkey = Some ''Key1'', toPubkey = ''11111111111111111111111111111112'',
             lamports = 21000000, recentBlockhash = None, feePayer = None\<rparr>"

text \<open>
  A suggestion was reported available: among the calls \<open>evs\<close> there is a lookup of its
  name that threw, the availability check answers such a lookup with the available result
  and the quote of the name, and the suggestion carries the total of that quote.
\<close>

definition reportedAvailable :: "'w env \<Rightarrow> event list \<Rightarrow> suggestion \<Rightarrow> bool" where
  "reportedAvailable env evs sg =
     ((\<exists>c e. EvResolve c (sg_domain sg) (Inl e) \<in> set evs)
      \<and> (\<exists>s' n usd. fst (checkDomainAvailability env (sg_domain sg) s')
              = Some (Free (sg_domain sg) (quotePrice (sg_domain sg)) n usd))
      \<and> sg_price sg = totalPrice (quotePrice (sg_domain sg)))"

section \<open>The numbers of the price table\<close>

text \<open>
  The doubles that the source writes as \<^verbatim>\<open>0.05\<close>, \<^verbatim>\<open>0.1\<close>, \<^verbatim>\<open>0.02\<close> and \<^verbatim>\<open>0.001\<close>,
  and the three totals. JavaScript prints the totals as \<^verbatim>\<open>0.051000000000000004\<close>,
  \<^verbatim>\<open>0.101\<close> and \<^verbatim>\<open>0.021\<close>.
\<close>

lemma tier_values:
  "tier1 pricing = 3602879701896397 / 72057594037927936" "tier2 pricing = 3602879701896397 / 72057594037927936"
  "tier3 pricing = 3602879701896397 / 36028797018963968" "tier4 pricing = 3602879701896397 / 72057594037927936"
  "default pricing = 5764607523034235 / 288230376151711744"
  by code_simp+

lemma fee_value: "networkFee = 1152921504606847 / 1152921504606846976"
  by code_simp

lemma total_values:
  "jsAdd (3602879701896397 / 72057594037927936) (1152921504606847 / 1152921504606846976) = 3674937295934325 / 72057594037927936"
  "jsAdd (3602879701896397 / 36028797018963968) (1152921504606847 / 1152921504606846976) = 3638908498915361 / 36028797018963968"
  "jsAdd (5764607523034235 / 288230376151711744) (1152921504606847 / 1152921504606846976) = 6052837899185947 / 288230376151711744"
  by code_simp+

text \<open>
  Three balances in lamports, as numbers of whole tokens. The second is printed as
  \<^verbatim>\<open>0.051\<close> and lies below the total printed as \<^verbatim>\<open>0.051000000000000004\<close>; the third
  is the total of a name of length 3 itself.
\<close>

lemma sample_balances:
  "jsDiv (toDouble 2000000000) 1000000000 = 2"
  "jsDiv (toDouble 51000000) 1000000000 = 7349874591868649 / 144115188075855872"
  "jsDiv (toDouble 101000000) 1000000000 = 3638908498915361 / 36028797018963968"
  by code_simp+

section \<open>Validation\<close>

lemma lower_chars:
  "(char_of :: nat \<Rightarrow> char) ` {97..122} = set ''abcdefghijklmnopqrstuvwxyz''"
  by code_simp

lemma digit_chars: "(char_of :: nat \<Rightarrow> char) ` {48..57} = set ''0123456789''"
  by code_simp

lemma inCharClass_iff:
  "inCharClass c \<longleftrightarrow> c \<in> set ''abcdefghijklmnopqrstuvwxyz0123456789-''"
proof
  assume "inCharClass c"
  then consider (letter) "(of_char c :: nat) \<in> {97..122}"
    | (digit) "(of_char c :: nat) \<in> {48..57}" | (hyphen) "c = CHR ''-''"
    unfolding inCharClass_def by auto
  then show "c \<in> set ''abcdefghijklmnopqrstuvwxyz0123456789-''"
  proof cases
    case letter
    then have "char_of (of_char c :: nat) \<in> (char_of :: nat \<Rightarrow> char) ` {97..122}"
      by (rule imageI)
    then have "c \<in> set ''abcdefghijklmnopqrstuvwxyz''"
      unfolding lower_chars by simp
    then show ?thesis by auto
  next
    case digit
    then have "char_of (of_char c :: nat) \<in> (char_of :: nat \<Rightarrow> char) ` {48..57}"
      by (rule imageI)
    then have "c \<in> set ''0123456789''"
      unfolding digit_chars by simp
    then show ?thesis by auto
  next
    case hyphen
    then show ?thesis by simp
  qed
next
  assume "c \<in> set ''abcdefghijklmnopqrstuvwxyz0123456789-''"
  then show "inCharClass c"
    by (auto simp: inCharClass_def)
qed

lemma regex_iff: "d \<noteq> [] \<Longrightarrow> validCharRegex_test d \<longleftrightarrow> \<not> rule_bad_char d"
  by (simp add: validCharRegex_test_def rule_bad_char_def list_all_iff inCharClass_iff del: set_simps)

lemma startsWith_hyphen: "startsWith d ''-'' \<longleftrightarrow> d \<noteq> [] \<and> hd d = CHR ''-''"
  by (cases d) (auto simp: startsWith_def)

lemma endsWith_hyphen: "endsWith d ''-'' \<longleftrightarrow> d \<noteq> [] \<and> last d = CHR ''-''"
proof (cases d rule: rev_cases)
  case Nil
  then show ?thesis by (simp add: endsWith_def)
next
  case (snoc ys y)
  then show ?thesis by (auto simp: endsWith_def)
qed

lemma edge_iff: "startsWith d ''-'' \<or> endsWith d ''-'' \<longleftrightarrow> rule_edge_hyphen d"
  by (auto simp: startsWith_hyphen endsWith_hyphen rule_edge_hyphen_def)

lemma startsWith_double: "startsWith (c # cs) ''--'' \<longleftrightarrow> c = CHR ''-'' \<and> cs \<noteq> [] \<and> hd cs = CHR ''-''"
  by (cases cs) (auto simp: startsWith_def)

lemma includes_double_aux:
  "includes_str d ''--'' \<longleftrightarrow> (\<exists>i. Suc i < length d \<and> d ! i = CHR ''-'' \<and> d ! Suc i = CHR ''-'')"
proof (induction d)
  case Nil
  then show ?case by simp
next
  case (Cons c cs)
  have "(\<exists>i. Suc i < length (c # cs) \<and> (c # cs) ! i = CHR ''-'' \<and> (c # cs) ! Suc i = CHR ''-'')
        \<longleftrightarrow> (c = CHR ''-'' \<and> cs \<noteq> [] \<and> hd cs = CHR ''-'')
            \<or> (\<exists>j. Suc j < length cs \<and> cs ! j = CHR ''-'' \<and> cs ! Suc j = CHR ''-'')"
    (is "?L \<longleftrightarrow> ?A \<or> ?B")
  proof
    assume ?L
    then obtain i where i: "Suc i < length (c # cs)" "(c # cs) ! i = CHR ''-''"
      "(c # cs) ! Suc i = CHR ''-''" by blast
    show "?A \<or> ?B"
    proof (cases i)
      case 0
      with i have "c = CHR ''-''" "cs \<noteq> []" "cs ! 0 = CHR ''-''" by auto
      then show ?thesis by (cases cs) auto
    next
      case (Suc j)
      with i have "Suc j < length cs \<and> cs ! j = CHR ''-'' \<and> cs ! Suc j = CHR ''-''" by simp
      then show ?thesis by blast
    qed
  next
    assume "?A \<or> ?B"
    then show ?L
    proof
      assume ?A
      then have "Suc 0 < length (c # cs) \<and> (c # cs) ! 0 = CHR ''-'' \<and> (c # cs) ! Suc 0 = CHR ''-''"
        by (cases cs) auto
      then show ?L by blast
    next
      assume ?B
      then obtain j where "Suc j < length cs" "cs ! j = CHR ''-''" "cs ! Suc j = CHR ''-''" by blast
      then have "Suc (Suc j) < length (c # cs) \<and> (c # cs) ! Suc j = CHR ''-''
                 \<and> (c # cs) ! Suc (Suc j) = CHR ''-''" by simp
      then show ?L by blast
    qed
  qed
  with Cons show ?case by (simp only: includes_str.simps startsWith_double)
qed

lemma double_iff: "includes_str d ''--'' \<longleftrightarrow> rule_double_hyphen d"
proof -
  have "(\<exists>i. Suc i < length d \<and> d ! i = CHR ''-'' \<and> d ! Suc i = CHR ''-'')
        \<longleftrightarrow> (\<exists>i < length d - 1. d ! i = CHR ''-'' \<and> d ! Suc i = CHR ''-'')"
    by (metis less_diff_conv Suc_eq_plus1)
  then show ?thesis by (simp add: includes_double_aux rule_double_hyphen_def)
qed

lemma validate_error: "error (validateDomainName d) = first_failure d"
proof (cases "d = []")
  case True
  then show ?thesis
    by (simp add: validateDomainName_def first_failure_def spec_rules_def invalid_def rule_empty_def)
next
  case False
  then have "validCharRegex_test d \<longleftrightarrow> \<not> rule_bad_char d" by (rule regex_iff)
  with False show ?thesis
    by (simp add: validateDomainName_def first_failure_def spec_rules_def invalid_def valid_def
        rule_empty_def rule_too_long_def edge_iff double_iff)
qed

lemma validate_isValid:
  "isValid (validateDomainName d)
     = (\<not> rule_empty d \<and> \<not> rule_too_long d \<and> \<not> rule_bad_char d
        \<and> \<not> rule_edge_hyphen d \<and> \<not> rule_double_hyphen d)"
proof (cases "d = []")
  case True
  then show ?thesis by (simp add: validateDomainName_def invalid_def rule_empty_def)
next
  case False
  then have "validCharRegex_test d \<longleftrightarrow> \<not> rule_bad_char d" by (rule regex_iff)
  with False show ?thesis
    by (simp add: validateDomainName_def invalid_def valid_def
        rule_empty_def rule_too_long_def edge_iff double_iff)
qed

lemma validate_reason:
  "\<not> isValid (validateDomainName d)
     \<Longrightarrow> \<exists>reason. error (validateDomainName d) = Some reason \<and> reason \<noteq> []"
  by (simp add: validateDomainName_def invalid_def valid_def split: if_splits)

text \<open>
  Claim C3. validateDomainName applies the rules in the order empty, longer than 32,
  character outside \<^verbatim>\<open>[a-z0-9-]\<close>, leading or trailing hyphen, doubled hyphen; the
  first rule that fails decides the answer. A name that breaks a rule is invalid with a
  non-empty reason, a name that breaks none is valid. The function reads nothing but its
  argument and returns nothing but its result.
\<close>

theorem validate_first_failure_wins:
  "error (validateDomainName d) = first_failure d
   \<and> isValid (validateDomainName d)
       = (\<not> rule_empty d \<and> \<not> rule_too_long d \<and> \<not> rule_bad_char d
          \<and> \<not> rule_edge_hyphen d \<and> \<not> rule_double_hyphen d)
   \<and> (\<not> isValid (validateDomainName d)
        \<longrightarrow> (\<exists>reason. error (validateDomainName d) = Some reason \<and> reason \<noteq> []))"
  using validate_error validate_isValid validate_reason by blast

theorem validate_first_failure_wins_witness:
  "\<not> isValid (validateDomainName ''-a--b_'')
   \<and> error (validateDomainName ''-a--b_'')
       = Some ''Domain name can only contain lowercase letters, numbers, and hyphens''
   \<and> first_failure ''-a--b_''
       = Some ''Domain name can only contain lowercase letters, numbers, and hyphens''
   \<and> (\<exists>reason. error (validateDomainName ''-a--b_'') = Some reason \<and> reason \<noteq> [])"
proof -
  have inv: "\<not> isValid (validateDomainName ''-a--b_'')"
    by (simp add: validateDomainName_def invalid_def validCharRegex_test_def inCharClass_def)
  have err: "error (validateDomainName ''-a--b_'')
       = Some ''Domain name can only contain lowercase letters, numbers, and hyphens''"
    by (simp add: validateDomainName_def invalid_def validCharRegex_test_def inCharClass_def)
  from validate_first_failure_wins [of "''-a--b_''"]
  have ff: "error (validateDomainName ''-a--b_'') = first_failure ''-a--b_''"
    and ex: "\<exists>reason. error (validateDomainName ''-a--b_'') = Some reason \<and> reason \<noteq> []"
    using inv by blast+
  from ff err have "first_failure ''-a--b_''
       = Some ''Domain name can only contain lowercase letters, numbers, and hyphens''"
    by (simp only:)
  with inv err ex show ?thesis by (intro conjI)
qed

section \<open>Pricing\<close>

lemma calculatePrice_by_length:
  "calculatePrice name =
     (if length name = 1 \<or> length name = 2 \<or> length name = 4 then 3602879701896397 / 72057594037927936
      else if length name = 3 then 3602879701896397 / 36028797018963968
      else 5764607523034235 / 288230376151711744)"
  by (auto simp: calculatePrice_def pricingAt_def orElse_def Let_def tier_values)

lemma tier_table_values:
  "tier_table n =
     (if n = 1 \<or> n = 2 \<or> n = 4 then Some (3602879701896397 / 72057594037927936)
      else if n = 3 then Some (3602879701896397 / 36028797018963968)
      else if 5 \<le> n then Some (5764607523034235 / 288230376151711744)
      else None)"
proof -
  have "tier1 pricing = toDouble (5 / 100)" "tier3 pricing = toDouble (1 / 10)"
    "default pricing = toDouble (2 / 100)"
    by (simp_all add: pricing_def)
  then have "toDouble (5 / 100) = 3602879701896397 / 72057594037927936" "toDouble (1 / 10) = 3602879701896397 / 36028797018963968"
    "toDouble (2 / 100) = 5764607523034235 / 288230376151711744"
    by (simp_all only: tier_values)
  then show ?thesis unfolding tier_table_def by (simp only:) auto
qed

lemma calc_tier: "1 \<le> length name \<Longrightarrow> Some (calculatePrice name) = tier_table (length name)"
  by (auto simp: calculatePrice_by_length tier_table_values)

lemma quote_fields:
  "basePrice (quotePrice name) = calculatePrice name"
  "quoteFee (quotePrice name) = networkFee"
  "totalPrice (quotePrice name) = jsAdd (calculatePrice name) networkFee"
  by (simp_all add: quotePrice_def Let_def)

lemma total_by_length:
  "totalPrice (quotePrice name) =
     (if length name = 1 \<or> length name = 2 \<or> length name = 4 then 3674937295934325 / 72057594037927936
      else if length name = 3 then 3638908498915361 / 36028797018963968
      else 6052837899185947 / 288230376151711744)"
  by (simp add: quote_fields calculatePrice_by_length fee_value total_values)

text \<open>
  Claim C2. The base price of a name is the tier of its length: 0.05 for length 1, 0.05
  for length 2, 0.1 for length 3, 0.05 for length 4 and 0.02 from length 5 on. The quoted
  total is the sum, as the double addition of the source computes it, of the base price
  and the network fee 0.001: the doubles printed as 0.051000000000000004 for the lengths
  1, 2 and 4, as 0.101 for length 3 and as 0.021 from length 5 on. A name of length 3
  costs more than a name of length 2 or 4.
\<close>

theorem price_tiers:
  "(1 \<le> length name \<longrightarrow> Some (calculatePrice name) = tier_table (length name))
   \<and> basePrice (quotePrice name) = calculatePrice name
   \<and> quoteFee (quotePrice name) = toDouble (1 / 1000)
   \<and> totalPrice (quotePrice name) = jsAdd (calculatePrice name) (toDouble (1 / 1000))
   \<and> (length name = 1 \<or> length name = 2 \<or> length name = 4 \<longrightarrow>
        totalPrice (quotePrice name) = 3674937295934325 / 72057594037927936)
   \<and> (length name = 3 \<longrightarrow> totalPrice (quotePrice name) = 3638908498915361 / 36028797018963968)
   \<and> (5 \<le> length name \<longrightarrow> totalPrice (quotePrice name) = 6052837899185947 / 288230376151711744)
   \<and> (length b = 3 \<and> (length a = 2 \<or> length a = 4) \<longrightarrow> calculatePrice a < calculatePrice b)"
proof (intro conjI impI)
  assume "1 \<le> length name"
  then show "Some (calculatePrice name) = tier_table (length name)" by (rule calc_tier)
next
  show "basePrice (quotePrice name) = calculatePrice name" by (rule quote_fields)
next
  show "quoteFee (quotePrice name) = toDouble (1 / 1000)"
    by (simp add: quote_fields networkFee_def)
next
  show "totalPrice (quotePrice name) = jsAdd (calculatePrice name) (toDouble (1 / 1000))"
    by (simp add: quote_fields networkFee_def)
next
  assume "length name = 1 \<or> length name = 2 \<or> length name = 4"
  then show "totalPrice (quotePrice name) = 3674937295934325 / 72057594037927936"
    by (simp only: total_by_length if_True)
next
  assume "length name = 3"
  then show "totalPrice (quotePrice name) = 3638908498915361 / 36028797018963968"
    by (simp add: total_by_length)
next
  assume "5 \<le> length name"
  then show "totalPrice (quotePrice name) = 6052837899185947 / 288230376151711744"
    by (simp add: total_by_length)
next
  assume "length b = 3 \<and> (length a = 2 \<or> length a = 4)"
  then show "calculatePrice a < calculatePrice b"
    by (auto simp: calculatePrice_by_length)
qed

theorem price_tiers_witness:
  "calculatePrice ''a'' = 3602879701896397 / 72057594037927936
   \<and> calculatePrice ''ab'' = 3602879701896397 / 72057594037927936
   \<and> calculatePrice ''abc'' = 3602879701896397 / 36028797018963968
   \<and> calculatePrice ''abcd'' = 3602879701896397 / 72057594037927936
   \<and> calculatePrice ''abcde'' = 5764607523034235 / 288230376151711744
   \<and> totalPrice (quotePrice ''a'') = 3674937295934325 / 72057594037927936
   \<and> totalPrice (quotePrice ''ab'') = 3674937295934325 / 72057594037927936
   \<and> totalPrice (quotePrice ''abc'') = 3638908498915361 / 36028797018963968
   \<and> totalPrice (quotePrice ''abcd'') = 3674937295934325 / 72057594037927936
   \<and> totalPrice (quotePrice ''abcde'') = 6052837899185947 / 288230376151711744
   \<and> calculatePrice ''ab'' < calculatePrice ''abc''
   \<and> calculatePrice ''abcd'' < calculatePrice ''abc''"
proof -
  have l: "length ''a'' = 1" "length ''ab'' = 2" "length ''abc'' = 3" "length ''abcd'' = 4"
    "5 \<le> length ''abcde''" "1 \<le> length ''a''" "1 \<le> length ''ab''" "1 \<le> length ''abc''"
    "1 \<le> length ''abcd''" "1 \<le> length ''abcde''"
    by simp_all
  have tt: "tier_table (length ''a'') = Some (3602879701896397 / 72057594037927936)"
    "tier_table (length ''ab'') = Some (3602879701896397 / 72057594037927936)"
    "tier_table (length ''abc'') = Some (3602879701896397 / 36028797018963968)"
    "tier_table (length ''abcd'') = Some (3602879701896397 / 72057594037927936)"
    "tier_table (length ''abcde'') = Some (5764607523034235 / 288230376151711744)"
    by (simp_all add: tier_table_values)
  note a = price_tiers [of "''a''"] and ab = price_tiers [of "''ab''" "''abc''" "''ab''"]
    and abc = price_tiers [of "''abc''"] and abcd = price_tiers [of "''abcd''" "''abc''" "''abcd''"]
    and abcde = price_tiers [of "''abcde''"]
  have c: "calculatePrice ''a'' = 3602879701896397 / 72057594037927936"
    "calculatePrice ''ab'' = 3602879701896397 / 72057594037927936"
    "calculatePrice ''abc'' = 3602879701896397 / 36028797018963968"
    "calculatePrice ''abcd'' = 3602879701896397 / 72057594037927936"
    "calculatePrice ''abcde'' = 5764607523034235 / 288230376151711744"
    using a ab abc abcd abcde l tt by (metis option.inject)+
  have q: "totalPrice (quotePrice ''a'') = 3674937295934325 / 72057594037927936"
    "totalPrice (quotePrice ''ab'') = 3674937295934325 / 72057594037927936"
    "totalPrice (quotePrice ''abc'') = 3638908498915361 / 36028797018963968"
    "totalPrice (quotePrice ''abcd'') = 3674937295934325 / 72057594037927936"
    "totalPrice (quotePrice ''abcde'') = 6052837899185947 / 288230376151711744"
    using a ab abc abcd abcde l by blast+
  have m: "calculatePrice ''ab'' < calculatePrice ''abc''"
    "calculatePrice ''abcd'' < calculatePrice ''abc''"
    using ab abcd l by blast+
  from c q m show ?thesis by (intro conjI)
qed

section \<open>Availability\<close>

lemma valid_length: "isValid (validateDomainName name) \<Longrightarrow> 1 \<le> length name"
  by (cases name) (simp_all add: validateDomainName_def invalid_def)

text \<open>
  Claim C1. For a name that passes validation: when the lookup of the name-resolution
  service throws, checkDomainAvailability answers with a successful result marked
  available that carries the quote (base price of the tier table, network fee 0.001,
  total their sum as the double addition of the source computes it); when the lookup
  returns an owner, it answers with a successful result marked unavailable that carries
  this owner.
\<close>

theorem availability_by_lookup:
  assumes "isValid (validateDomainName name)"
  shows "(fst (sns_resolve env (connection (wm s)) name (world s)) = Inl e \<longrightarrow>
            fst (checkDomainAvailability env name s)
              = Some (Free name (quotePrice name) (currentNetwork (wm s))
                   (convertSOLToUSD env (totalPrice (quotePrice name))))
            \<and> basePrice (quotePrice name) = calculatePrice name
            \<and> Some (calculatePrice name) = tier_table (length name)
            \<and> quoteFee (quotePrice name) = toDouble (1 / 1000)
            \<and> totalPrice (quotePrice name) = jsAdd (calculatePrice name) (toDouble (1 / 1000)))
       \<and> (fst (sns_resolve env (connection (wm s)) name (world s)) = Inr (Some owner) \<longrightarrow>
            fst (checkDomainAvailability env name s)
              = Some (Taken name owner (currentNetwork (wm s))))"
proof (intro conjI impI)
  assume "fst (sns_resolve env (connection (wm s)) name (world s)) = Inl e"
  with assms show "fst (checkDomainAvailability env name s)
      = Some (Free name (quotePrice name) (currentNetwork (wm s))
           (convertSOLToUSD env (totalPrice (quotePrice name))))"
    by (cases "sns_resolve env (connection (wm s)) name (world s)")
       (simp add: checkDomainAvailability_def Let_def emit_def)
next
  show "basePrice (quotePrice name) = calculatePrice name" by (rule quote_fields)
next
  show "Some (calculatePrice name) = tier_table (length name)"
    by (rule calc_tier [OF valid_length [OF assms]])
next
  show "quoteFee (quotePrice name) = toDouble (1 / 1000)"
    by (simp add: quote_fields networkFee_def)
next
  show "totalPrice (quotePrice name) = jsAdd (calculatePrice name) (toDouble (1 / 1000))"
    by (simp add: quote_fields networkFee_def)
next
  assume "fst (sns_resolve env (connection (wm s)) name (world s)) = Inr (Some owner)"
  with assms show "fst (checkDomainAvailability env name s)
      = Some (Taken name owner (currentNetwork (wm s)))"
    by (cases "sns_resolve env (connection (wm s)) name (world s)")
       (simp add: checkDomainAvailability_def Let_def emit_def)
qed

theorem availability_by_lookup_witness:
  "isValid (validateDomainName ''a'')
   \<and> fst (checkDomainAvailability stubEnv ''a'' (stubSys 0))
       = Some (Free ''a'' (quotePrice ''a'') ''mainnet'' ''number'')
   \<and> basePrice (quotePrice ''a'') = 3602879701896397 / 72057594037927936
   \<and> totalPrice (quotePrice ''a'') = 3674937295934325 / 72057594037927936
   \<and> isValid (validateDomainName ''myname'')
   \<and> fst (checkDomainAvailability stubEnv ''myname'' (stubSys 0))
       = Some (Free ''myname'' (quotePrice ''myname'') ''mainnet'' ''number'')
   \<and> totalPrice (quotePrice ''myname'') = 6052837899185947 / 288230376151711744
   \<and> isValid (validateDomainName ''taken'')
   \<and> fst (checkDomainAvailability stubEnv ''taken'' (stubSys 0))
       = Some (Taken ''taken'' ''Owner1'' ''mainnet'')"
proof -
  have v0: "isValid (validateDomainName ''a'')"
    by (simp add: validateDomainName_def valid_def invalid_def validCharRegex_test_def
        inCharClass_def startsWith_def endsWith_def)
  have v1: "isValid (validateDomainName ''myname'')"
    by (simp add: validateDomainName_def valid_def invalid_def validCharRegex_test_def
        inCharClass_def startsWith_def endsWith_def)
  have v2: "isValid (validateDomainName ''taken'')"
    by (simp add: validateDomainName_def valid_def invalid_def validCharRegex_test_def
        inCharClass_def startsWith_def endsWith_def)
  have r0: "fst (sns_resolve stubEnv (connection (wm (stubSys 0))) ''a'' (world (stubSys 0)))
            = Inl (JsError ''Account not found'' None)"
    and r1: "fst (sns_resolve stubEnv (connection (wm (stubSys 0))) ''myname'' (world (stubSys 0)))
            = Inl (JsError ''Account not found'' None)"
    and r2: "fst (sns_resolve stubEnv (connection (wm (stubSys 0))) ''taken'' (world (stubSys 0)))
            = Inr (Some ''Owner1'')"
    by (simp_all add: stubEnv_def)
  have n: "currentNetwork (wm (stubSys 0)) = ''mainnet''" by (simp add: stubSys_def)
  have u: "convertSOLToUSD stubEnv x = ''number''" for x
    by (simp add: convertSOLToUSD_def stubEnv_def)
  have p: "basePrice (quotePrice ''a'') = 3602879701896397 / 72057594037927936"
    "totalPrice (quotePrice ''a'') = 3674937295934325 / 72057594037927936"
    "totalPrice (quotePrice ''myname'') = 6052837899185947 / 288230376151711744"
    by (simp_all add: quote_fields(1) calculatePrice_by_length total_by_length)
  from availability_by_lookup [OF v0, of stubEnv "stubSys 0" "JsError ''Account not found'' None"]
    r0 n u
  have a0: "fst (checkDomainAvailability stubEnv ''a'' (stubSys 0))
       = Some (Free ''a'' (quotePrice ''a'') ''mainnet'' ''number'')"
    by (simp only:)
  from availability_by_lookup [OF v1, of stubEnv "stubSys 0" "JsError ''Account not found'' None"]
    r1 n u
  have a1: "fst (checkDomainAvailability stubEnv ''myname'' (stubSys 0))
       = Some (Free ''myname'' (quotePrice ''myname'') ''mainnet'' ''number'')"
    by (simp only:)
  from availability_by_lookup [OF v2, of stubEnv "stubSys 0" _ "''Owner1''"] r2 n
  have a2: "fst (checkDomainAvailability stubEnv ''taken'' (stubSys 0))
       = Some (Taken ''taken'' ''Owner1'' ''mainnet'')"
    by (simp only:)
  from v0 a0 p v1 a1 v2 a2 show ?thesis by (intro conjI)
qed

section \<open>Disconnect\<close>

lemma wm_dispatch: "wm (dispatchEvent env name s) = wm s"
  by (simp add: dispatchEvent_def emit_def)

lemma wm_handleWalletDisconnect:
  "wm (handleWalletDisconnect env s) = (wm s)\<lparr>wallet := None, publicKey := None, isConnected := False\<rparr>"
  by (simp add: handleWalletDisconnect_def wm_dispatch)

text \<open>
  Claim C8. After disconnect the session is disconnected: isConnected is false, publicKey
  and wallet are cleared. This holds whether or not the wallet is told, whatever the
  wallet answers and whatever events it fires meanwhile.
\<close>

theorem disconnect_unconditional:
  "isConnected (wm (disconnect env s)) = False
   \<and> publicKey (wm (disconnect env s)) = None
   \<and> wallet (wm (disconnect env s)) = None"
  by (simp add: disconnect_def Let_def wm_handleWalletDisconnect)

theorem disconnect_unconditional_witness:
  "fst (fst (wallet_disconnect stubEnv 0)) = Inl (JsError ''wallet is locked'' None)
   \<and> isConnected (wm (stubSys 0))
   \<and> \<not> isConnected (wm (disconnect stubEnv (stubSys 0)))
   \<and> calls (disconnect stubEnv (stubSys 0))
       = [EvWalletDisconnect, EvDispatch ''walletConnected'', EvDispatch ''walletDisconnected'']"
  using disconnect_unconditional [of stubEnv "stubSys 0"]
  by (simp add: stubEnv_def stubSys_def disconnect_def Let_def handleWalletDisconnect_def
      handleWalletConnect_def dispatchEvent_def emit_def)

section \<open>Balance\<close>

lemma calls_connection_getBalance:
  "\<exists>evs. calls (snd (connection_getBalance env s)) = calls s @ evs
         \<and> set evs \<subseteq> {EvGetBalance} \<and> length evs \<le> 1"
  by (auto simp: connection_getBalance_def emit_def split: option.splits prod.splits)

lemma balanceLoop_calls:
  "\<exists>evs. calls (snd (balanceLoop env n s)) = calls s @ evs
         \<and> set evs \<subseteq> {EvGetBalance, EvSleep 1000}
         \<and> length (filter (\<lambda>e. e = EvGetBalance) evs) \<le> n"
proof (induction n arbitrary: s)
  case 0
  then show ?case by simp
next
  case (Suc n)
  obtain r s1 where c: "connection_getBalance env s = (r, s1)" by (cases "connection_getBalance env s")
  from calls_connection_getBalance [of env s] c
  obtain evs1 where e1: "calls s1 = calls s @ evs1" "set evs1 \<subseteq> {EvGetBalance}" "length evs1 \<le> 1"
    by auto
  show ?case
  proof (cases r)
    case (Inr b)
    with c e1 show ?thesis
      by (auto intro!: exI [of _ evs1] simp: le_SucI intro: order_trans [OF length_filter_le])
  next
    case (Inl e)
    show ?thesis
    proof (cases "n = 0")
      case True
      with c e1 Inl show ?thesis
        by (auto intro!: exI [of _ evs1] intro: order_trans [OF length_filter_le])
    next
      case False
      from Suc.IH [of "delay 1000 s1"]
      obtain evs2 where e2: "calls (snd (balanceLoop env n (delay 1000 s1))) = calls (delay 1000 s1) @ evs2"
        "set evs2 \<subseteq> {EvGetBalance, EvSleep 1000}"
        "length (filter (\<lambda>e. e = EvGetBalance) evs2) \<le> n" by blast
      have f1: "length (filter (\<lambda>e. e = EvGetBalance) evs1) \<le> 1"
        using e1(3) by (rule order_trans [OF length_filter_le])
      from c e1 e2 Inl False f1 show ?thesis
        by (auto intro!: exI [of _ "evs1 @ [EvSleep 1000] @ evs2"] simp: delay_def emit_def)
    qed
  qed
qed

lemma balanceLoop_defined:
  "0 < n \<Longrightarrow> fst (balanceLoop env n s) \<noteq> Inr None"
proof (induction n arbitrary: s)
  case 0
  then show ?case by simp
next
  case (Suc n)
  then show ?case
    by (cases "connection_getBalance env s") (auto split: sum.splits)
qed

lemma getBalance_total: "\<exists>v. fst (getBalance env s) = Inr (Some v)"
proof (cases "\<not> isConnected (wm s) \<or> publicKey (wm s) = None")
  case True
  then show ?thesis by (auto simp: getBalance_def)
next
  case False
  obtain r s1 where b: "balanceLoop env 3 s = (r, s1)" by (cases "balanceLoop env 3 s")
  from balanceLoop_defined [of 3 env s] b have "r \<noteq> Inr None" by simp
  with False b show ?thesis
    by (cases r) (auto simp: getBalance_def)
qed

lemma getBalance_calls:
  "\<exists>evs. calls (snd (getBalance env s)) = calls s @ evs
         \<and> set evs \<subseteq> {EvGetBalance, EvSleep 1000}
         \<and> length (filter (\<lambda>e. e = EvGetBalance) evs) \<le> 3"
proof (cases "\<not> isConnected (wm s) \<or> publicKey (wm s) = None")
  case True
  then show ?thesis by (auto simp: getBalance_def)
next
  case False
  obtain r s1 where b: "balanceLoop env 3 s = (r, s1)" by (cases "balanceLoop env 3 s")
  from balanceLoop_calls [of env 3 s] b False show ?thesis
    by (cases r) (auto simp: getBalance_def)
qed

lemma getBalance_attempts:
  "length (filter (\<lambda>e. e = EvGetBalance) (newCalls s (snd (getBalance env s)))) \<le> 3"
  using getBalance_calls [of env s] by (auto simp: newCalls_def)

lemma connection_getBalance_connected:
  assumes "publicKey (wm s) = Some pk" "connection (wm s) = Some c"
  shows "connection_getBalance env s
         = (fst (rpc_getBalance env c (Some pk) (world s)),
            s\<lparr>world := snd (rpc_getBalance env c (Some pk) (world s)),
              calls := calls s @ [EvGetBalance]\<rparr>)"
  using assms by (simp add: connection_getBalance_def emit_def split: prod.splits)

lemma balanceLoop_Suc:
  "connection_getBalance env s = (r, s1) \<Longrightarrow>
   balanceLoop env (Suc n) s
     = (case r of
          Inr b \<Rightarrow> (Inr (Some (jsDiv (toDouble (of_nat b)) 1000000000)), s1)
        | Inl e \<Rightarrow> if n = 0 then (Inl e, s1) else balanceLoop env n (delay 1000 s1))"
  by simp

lemma getBalance_cases:
  assumes conn: "isConnected (wm s)" and pk: "publicKey (wm s) = Some pk"
    and c: "connection (wm s) = Some c"
  shows "(let a1 = rpc_getBalance env c (Some pk) (world s);
              a2 = rpc_getBalance env c (Some pk) (snd a1);
              a3 = rpc_getBalance env c (Some pk) (snd a2);
              out = getBalance env s
          in case fst a1 of
               Inr b \<Rightarrow> fst out = Inr (Some (jsDiv (toDouble (of_nat b)) 1000000000))
                         \<and> newCalls s (snd out) = [EvGetBalance]
             | Inl e1 \<Rightarrow>
                (case fst a2 of
                   Inr b \<Rightarrow> fst out = Inr (Some (jsDiv (toDouble (of_nat b)) 1000000000))
                             \<and> newCalls s (snd out) = [EvGetBalance, EvSleep 1000, EvGetBalance]
                 | Inl e2 \<Rightarrow>
                    (case fst a3 of
                       Inr b \<Rightarrow> fst out = Inr (Some (jsDiv (toDouble (of_nat b)) 1000000000))
                                 \<and> newCalls s (snd out)
                                     = [EvGetBalance, EvSleep 1000, EvGetBalance, EvSleep 1000,
                                        EvGetBalance]
                     | Inl e3 \<Rightarrow> fst out = Inr (Some 0)
                                 \<and> newCalls s (snd out)
                                     = [EvGetBalance, EvSleep 1000, EvGetBalance, EvSleep 1000,
                                        EvGetBalance])))"
proof -
  define a1 where "a1 = rpc_getBalance env c (Some pk) (world s)"
  define a2 where "a2 = rpc_getBalance env c (Some pk) (snd a1)"
  define a3 where "a3 = rpc_getBalance env c (Some pk) (snd a2)"
  define s1 where "s1 = s\<lparr>world := snd a1, calls := calls s @ [EvGetBalance]\<rparr>"
  define s2 where "s2 = s\<lparr>world := snd a2,
     calls := calls s @ [EvGetBalance, EvSleep 1000, EvGetBalance]\<rparr>"
  define s3 where "s3 = s\<lparr>world := snd a3,
     calls := calls s @ [EvGetBalance, EvSleep 1000, EvGetBalance, EvSleep 1000, EvGetBalance]\<rparr>"
  have g1: "connection_getBalance env s = (fst a1, s1)"
    using connection_getBalance_connected [OF pk c, of env] by (simp add: a1_def s1_def)
  have g2: "connection_getBalance env (delay 1000 s1) = (fst a2, s2)"
    using connection_getBalance_connected [of "delay 1000 s1" pk c env] pk c
    by (simp add: a2_def s1_def s2_def delay_def emit_def)
  have g3: "connection_getBalance env (delay 1000 s2) = (fst a3, s3)"
    using connection_getBalance_connected [of "delay 1000 s2" pk c env] pk c
    by (simp add: a3_def s2_def s3_def delay_def emit_def)
  have l1: "balanceLoop env (Suc 0) (delay 1000 s2)
            = (case fst a3 of Inr b \<Rightarrow> (Inr (Some (jsDiv (toDouble (of_nat b)) 1000000000)), s3)
               | Inl e \<Rightarrow> (Inl e, s3))"
    by (simp only: balanceLoop_Suc [OF g3]) (simp split: sum.splits)
  have l2: "balanceLoop env (Suc (Suc 0)) (delay 1000 s1)
            = (case fst a2 of Inr b \<Rightarrow> (Inr (Some (jsDiv (toDouble (of_nat b)) 1000000000)), s2)
               | Inl e \<Rightarrow> balanceLoop env (Suc 0) (delay 1000 s2))"
    by (simp only: balanceLoop_Suc [OF g2]) (simp split: sum.splits)
  have l3: "balanceLoop env 3 s
            = (case fst a1 of Inr b \<Rightarrow> (Inr (Some (jsDiv (toDouble (of_nat b)) 1000000000)), s1)
               | Inl e \<Rightarrow> balanceLoop env (Suc (Suc 0)) (delay 1000 s1))"
    by (simp only: numeral_3_eq_3 balanceLoop_Suc [OF g1]) (simp split: sum.splits)
  have out: "getBalance env s = (case balanceLoop env 3 s of
             (Inl e, s') \<Rightarrow> (Inr (Some 0), s') | (Inr v, s') \<Rightarrow> (Inr v, s'))"
    using conn pk by (simp add: getBalance_def)
  have res: "getBalance env s
      = (case fst a1 of
           Inr b \<Rightarrow> (Inr (Some (jsDiv (toDouble (of_nat b)) 1000000000)), s1)
         | Inl e1 \<Rightarrow>
            (case fst a2 of
               Inr b \<Rightarrow> (Inr (Some (jsDiv (toDouble (of_nat b)) 1000000000)), s2)
             | Inl e2 \<Rightarrow>
                (case fst a3 of
                   Inr b \<Rightarrow> (Inr (Some (jsDiv (toDouble (of_nat b)) 1000000000)), s3)
                 | Inl e3 \<Rightarrow> (Inr (Some 0), s3))))"
    by (simp add: out l3 l2 l1 del: balanceLoop.simps split: sum.splits)
  have n1: "newCalls s s1 = [EvGetBalance]"
    and n2: "newCalls s s2 = [EvGetBalance, EvSleep 1000, EvGetBalance]"
    and n3: "newCalls s s3
             = [EvGetBalance, EvSleep 1000, EvGetBalance, EvSleep 1000, EvGetBalance]"
    by (simp_all add: newCalls_def s1_def s2_def s3_def)
  show ?thesis
    unfolding Let_def a1_def [symmetric] a2_def [symmetric] a3_def [symmetric]
    by (simp add: res n1 n2 n3 split: sum.splits)
qed

text \<open>
  Claim C7. getBalance never throws and always returns a number. It asks the RPC node at
  most 3 times, with a pause of 1000 ms after a failed attempt that is followed by
  another one. The first attempt that succeeds gives the result, its lamports divided by
  10^9; when all three attempts fail the result is 0.
\<close>

theorem getBalance_retries:
  "(\<exists>v. fst (getBalance env s) = Inr (Some v))
   \<and> length (filter (\<lambda>e. e = EvGetBalance) (newCalls s (snd (getBalance env s)))) \<le> 3
   \<and> (isConnected (wm s) \<and> publicKey (wm s) = Some pk \<and> connection (wm s) = Some c \<longrightarrow>
       (let a1 = rpc_getBalance env c (Some pk) (world s);
            a2 = rpc_getBalance env c (Some pk) (snd a1);
            a3 = rpc_getBalance env c (Some pk) (snd a2);
            out = getBalance env s
        in case fst a1 of
             Inr b \<Rightarrow> fst out = Inr (Some (jsDiv (toDouble (of_nat b)) 1000000000))
                       \<and> newCalls s (snd out) = [EvGetBalance]
           | Inl e1 \<Rightarrow>
              (case fst a2 of
                 Inr b \<Rightarrow> fst out = Inr (Some (jsDiv (toDouble (of_nat b)) 1000000000))
                           \<and> newCalls s (snd out) = [EvGetBalance, EvSleep 1000, EvGetBalance]
               | Inl e2 \<Rightarrow>
                  (case fst a3 of
                     Inr b \<Rightarrow> fst out = Inr (Some (jsDiv (toDouble (of_nat b)) 1000000000))
                               \<and> newCalls s (snd out)
                                   = [EvGetBalance, EvSleep 1000, EvGetBalance, EvSleep 1000,
                                      EvGetBalance]
                   | Inl e3 \<Rightarrow> fst out = Inr (Some 0)
                               \<and> newCalls s (snd out)
                                   = [EvGetBalance, EvSleep 1000, EvGetBalance, EvSleep 1000,
                                      EvGetBalance]))))"
  using getBalance_total [of env s] getBalance_attempts [of s env] getBalance_cases [of s pk c env]
  by blast

theorem getBalance_retries_witness:
  "fst (getBalance stubEnv (stubSys 8)) = Inr (Some 2)
   \<and> newCalls (stubSys 8) (snd (getBalance stubEnv (stubSys 8)))
       = [EvGetBalance, EvSleep 1000, EvGetBalance, EvSleep 1000, EvGetBalance]
   \<and> fst (getBalance stubEnv (stubSys 0)) = Inr (Some 0)
   \<and> newCalls (stubSys 0) (snd (getBalance stubEnv (stubSys 0)))
       = [EvGetBalance, EvSleep 1000, EvGetBalance, EvSleep 1000, EvGetBalance]
   \<and> fst (getBalance stubEnv (stubSys 100)) = Inr (Some (7349874591868649 / 144115188075855872))"
  using getBalance_retries [of stubEnv "stubSys 8" "''Key1''" "''https://rpc.ankr.com/solana''"]
    getBalance_retries [of stubEnv "stubSys 0" "''Key1''" "''https://rpc.ankr.com/solana''"]
    getBalance_retries [of stubEnv "stubSys 100" "''Key1''" "''https://rpc.ankr.com/solana''"]
  by (simp add: stubEnv_def stubSys_def Let_def sample_balances)

section \<open>Signing\<close>

lemma map_timeout:
  "mapTransactionError (JsError ''Timeout getting blockhash'' None)
   = JsError ''Transaction timed out. Please try again.'' None"
  by (simp add: mapTransactionError_def startsWith_def)

lemma map_rejected:
  "errcode e = Some 4001 \<or> includes_str (message e) ''User rejected''
   \<Longrightarrow> mapTransactionError e = JsError ''Transaction rejected by user'' None"
  by (auto simp: mapTransactionError_def)

lemma race_timeout:
  "(\<forall>t r. p = Settles t r \<longrightarrow> ms \<le> t) \<Longrightarrow> race ms e p = Inl e"
  by (cases p) (auto simp: race_def)

lemma sign_not_connected:
  "\<not> isConnected (wm s) \<or> wallet (wm s) = None
   \<Longrightarrow> signAndSendTransaction env tx s = (Inl (JsError ''Wallet not connected'' None), s)"
  by (auto simp: signAndSendTransaction_def)

lemma sign_timeout:
  assumes "isConnected (wm s)" "wallet (wm s) \<noteq> None" "connection (wm s) = Some c"
    and "\<forall>t r. fst (rpc_getLatestBlockhash env c (world s)) = Settles t r \<longrightarrow> 10000 \<le> t"
  shows "fst (signAndSendTransaction env tx s)
           = Inl (JsError ''Transaction timed out. Please try again.'' None)
         \<and> newCalls s (snd (signAndSendTransaction env tx s)) = [EvGetLatestBlockhash]"
proof -
  obtain p w1 where g: "rpc_getLatestBlockhash env c (world s) = (p, w1)"
    by (cases "rpc_getLatestBlockhash env c (world s)")
  with assms(4) have r: "race 10000 (JsError ''Timeout getting blockhash'' None) p
      = Inl (JsError ''Timeout getting blockhash'' None)"
    by (intro race_timeout) simp
  have "signAndSend_try env tx s
        = (Inl (JsError ''Timeout getting blockhash'' None),
           emit EvGetLatestBlockhash (s\<lparr>world := w1\<rparr>))"
    using assms(3) g r by (simp add: signAndSend_try_def)
  with assms(1,2) show ?thesis
    by (simp add: signAndSendTransaction_def map_timeout newCalls_def emit_def)
qed

lemma sign_rejected:
  assumes "isConnected (wm s)" "wallet (wm s) \<noteq> None" "connection (wm s) = Some c"
    and "rpc_getLatestBlockhash env c (world s) = (Settles t (Inr (bh, h)), w1)" "t < 10000"
    and "fst (wallet_signTransaction env
               (tx\<lparr>recentBlockhash := Some bh, feePayer := publicKey (wm s)\<rparr>) w1) = Inl e"
    and "errcode e = Some 4001 \<or> includes_str (message e) ''User rejected''"
  shows "fst (signAndSendTransaction env tx s) = Inl (JsError ''Transaction rejected by user'' None)
         \<and> newCalls s (snd (signAndSendTransaction env tx s))
             = [EvGetLatestBlockhash,
                EvSignTransaction (tx\<lparr>recentBlockhash := Some bh, feePayer := publicKey (wm s)\<rparr>)]"
proof -
  obtain sg w2 where g: "wallet_signTransaction env
               (tx\<lparr>recentBlockhash := Some bh, feePayer := publicKey (wm s)\<rparr>) w1 = (sg, w2)"
    by (cases "wallet_signTransaction env
               (tx\<lparr>recentBlockhash := Some bh, feePayer := publicKey (wm s)\<rparr>) w1")
  with assms(6) have sg: "sg = Inl e" by simp
  have "signAndSend_try env tx s
        = (Inl e, s\<lparr>world := w2,
             calls := calls s @ [EvGetLatestBlockhash,
                EvSignTransaction (tx\<lparr>recentBlockhash := Some bh, feePayer := publicKey (wm s)\<rparr>)]\<rparr>)"
    using assms(3,4,5) g sg
    by (simp add: signAndSend_try_def race_def emit_def)
  with assms(1,2) map_rejected [OF assms(7)] show ?thesis
    by (simp add: signAndSendTransaction_def newCalls_def)
qed

text \<open>
  Claim C9. When the session is not connected, signAndSendTransaction throws
  \<^verbatim>\<open>Wallet not connected\<close> and leaves the state as it was: no call leaves the program.
  When it is connected, a blockhash that does not arrive within 10000 ms leads to the
  time-out error and a signature refused by the user leads to the rejection error; the
  two errors differ.
\<close>

theorem signing_errors:
  "(\<not> isConnected (wm s) \<or> wallet (wm s) = None \<longrightarrow>
      signAndSendTransaction env tx s = (Inl (JsError ''Wallet not connected'' None), s))
   \<and> (isConnected (wm s) \<and> wallet (wm s) \<noteq> None \<and> connection (wm s) = Some c
       \<and> (\<forall>t r. fst (rpc_getLatestBlockhash env c (world s)) = Settles t r \<longrightarrow> 10000 \<le> t) \<longrightarrow>
      fst (signAndSendTransaction env tx s)
        = Inl (JsError ''Transaction timed out. Please try again.'' None)
      \<and> newCalls s (snd (signAndSendTransaction env tx s)) = [EvGetLatestBlockhash])
   \<and> (isConnected (wm s) \<and> wallet (wm s) \<noteq> None \<and> connection (wm s) = Some c
       \<and> rpc_getLatestBlockhash env c (world s) = (Settles t (Inr (bh, h)), w1) \<and> t < 10000
       \<and> fst (wallet_signTransaction env
                 (tx\<lparr>recentBlockhash := Some bh, feePayer := publicKey (wm s)\<rparr>) w1) = Inl e
       \<and> (errcode e = Some 4001 \<or> includes_str (message e) ''User rejected'') \<longrightarrow>
      fst (signAndSendTransaction env tx s) = Inl (JsError ''Transaction rejected by user'' None)
      \<and> newCalls s (snd (signAndSendTransaction env tx s))
          = [EvGetLatestBlockhash,
             EvSignTransaction (tx\<lparr>recentBlockhash := Some bh, feePayer := publicKey (wm s)\<rparr>)])
   \<and> JsError ''Transaction timed out. Please try again.'' None
       \<noteq> JsError ''Transaction rejected by user'' None"
proof (intro conjI)
  show "\<not> isConnected (wm s) \<or> wallet (wm s) = None \<longrightarrow>
      signAndSendTransaction env tx s = (Inl (JsError ''Wallet not connected'' None), s)"
    using sign_not_connected [of s env tx] by (rule impI)
next
  show "isConnected (wm s) \<and> wallet (wm s) \<noteq> None \<and> connection (wm s) = Some c
       \<and> (\<forall>t r. fst (rpc_getLatestBlockhash env c (world s)) = Settles t r \<longrightarrow> 10000 \<le> t) \<longrightarrow>
      fst (signAndSendTransaction env tx s)
        = Inl (JsError ''Transaction timed out. Please try again.'' None)
      \<and> newCalls s (snd (signAndSendTransaction env tx s)) = [EvGetLatestBlockhash]"
  proof
    assume h: "isConnected (wm s) \<and> wallet (wm s) \<noteq> None \<and> connection (wm s) = Some c
       \<and> (\<forall>t r. fst (rpc_getLatestBlockhash env c (world s)) = Settles t r \<longrightarrow> 10000 \<le> t)"
    show "fst (signAndSendTransaction env tx s)
        = Inl (JsError ''Transaction timed out. Please try again.'' None)
      \<and> newCalls s (snd (signAndSendTransaction env tx s)) = [EvGetLatestBlockhash]"
      by (rule sign_timeout [of s c env tx]) (use h in simp_all)
  qed
next
  show "isConnected (wm s) \<and> wallet (wm s) \<noteq> None \<and> connection (wm s) = Some c
       \<and> rpc_getLatestBlockhash env c (world s) = (Settles t (Inr (bh, h)), w1) \<and> t < 10000
       \<and> fst (wallet_signTransaction env
                 (tx\<lparr>recentBlockhash := Some bh, feePayer := publicKey (wm s)\<rparr>) w1) = Inl e
       \<and> (errcode e = Some 4001 \<or> includes_str (message e) ''User rejected'') \<longrightarrow>
      fst (signAndSendTransaction env tx s) = Inl (JsError ''Transaction rejected by user'' None)
      \<and> newCalls s (snd (signAndSendTransaction env tx s))
          = [EvGetLatestBlockhash,
             EvSignTransaction (tx\<lparr>recentBlockhash := Some bh, feePayer := publicKey (wm s)\<rparr>)]"
  proof
    assume h: "isConnected (wm s) \<and> wallet (wm s) \<noteq> None \<and> connection (wm s) = Some c
       \<and> rpc_getLatestBlockhash env c (world s) = (Settles t (Inr (bh, h)), w1) \<and> t < 10000
       \<and> fst (wallet_signTransaction env
                 (tx\<lparr>recentBlockhash := Some bh, feePayer := publicKey (wm s)\<rparr>) w1) = Inl e
       \<and> (errcode e = Some 4001 \<or> includes_str (message e) ''User rejected'')"
    show "fst (signAndSendTransaction env tx s) = Inl (JsError ''Transaction rejected by user'' None)
      \<and> newCalls s (snd (signAndSendTransaction env tx s))
          = [EvGetLatestBlockhash,
             EvSignTransaction (tx\<lparr>recentBlockhash := Some bh, feePayer := publicKey (wm s)\<rparr>)]"
      by (rule sign_rejected [of s c env t bh h w1 tx e]) (use h in simp_all)
  qed
next
  show "JsError ''Transaction timed out. Please try again.'' None
       \<noteq> JsError ''Transaction rejected by user'' None"
    by simp
qed

theorem signing_errors_witness:
  "signAndSendTransaction stubEnv stubTx ((stubSys 0)\<lparr>wm := (wm (stubSys 0))\<lparr>isConnected := False\<rparr>\<rparr>)
     = (Inl (JsError ''Wallet not connected'' None),
        (stubSys 0)\<lparr>wm := (wm (stubSys 0))\<lparr>isConnected := False\<rparr>\<rparr>)
   \<and> fst (signAndSendTransaction stubEnv stubTx (stubSys 20))
       = Inl (JsError ''Transaction timed out. Please try again.'' None)
   \<and> newCalls (stubSys 20) (snd (signAndSendTransaction stubEnv stubTx (stubSys 20)))
       = [EvGetLatestBlockhash]
   \<and> fst (signAndSendTransaction stubEnv stubTx (stubSys 14))
       = Inl (JsError ''Transaction rejected by user'' None)
   \<and> newCalls (stubSys 14) (snd (signAndSendTransaction stubEnv stubTx (stubSys 14)))
       = [EvGetLatestBlockhash,
          EvSignTransaction (stubTx\<lparr>recentBlockhash := Some ''blockhash'', feePayer := Some ''Key1''\<rparr>)]"
  using signing_errors [of "(stubSys 0)\<lparr>wm := (wm (stubSys 0))\<lparr>isConnected := False\<rparr>\<rparr>"
      stubEnv stubTx]
    signing_errors [of "stubSys 20" stubEnv stubTx "''https://rpc.ankr.com/solana''"]
    signing_errors [of "stubSys 14" stubEnv stubTx "''https://rpc.ankr.com/solana''" 80
      "''blockhash''" 100 15 "JsError ''User rejected the request.'' (Some 4001)"]
  by (simp add: stubEnv_def stubSys_def)

section \<open>Registration\<close>

lemma checkDomainAvailability_calls:
  "\<exists>evs. calls (snd (checkDomainAvailability env name s)) = calls s @ evs
         \<and> (\<forall>e \<in> set evs. \<not> isTransactionEvent e)"
  by (auto simp: checkDomainAvailability_def Let_def emit_def
      split: prod.splits sum.splits option.splits)

lemma getBalance_no_transaction:
  "\<exists>evs. calls (snd (getBalance env s)) = calls s @ evs
         \<and> (\<forall>e \<in> set evs. \<not> isTransactionEvent e)"
proof -
  from getBalance_calls [of env s] obtain evs
    where "calls (snd (getBalance env s)) = calls s @ evs" "set evs \<subseteq> {EvGetBalance, EvSleep 1000}"
    by blast
  then show ?thesis by (intro exI [of _ evs]) auto
qed

lemma insufficient_message:
  "startsWith (message (insufficientBalance env cost balance)) ''Insufficient balance''"
  by (simp add: insufficientBalance_def startsWith_def)

text \<open>
  Claim C5. When registerDomain reaches the balance check and the balance that getBalance
  returns is below the quoted total, it throws the insufficient-balance error, and no
  transaction has been constructed, signed or sent by then. The quoted total is the
  double sum of the base price and the network fee.
\<close>

theorem insufficient_funds_before_transaction:
  assumes conn: "isConnected (wm s)"
    and avail: "checkDomainAvailability env name s = (Some (Free d q n usd), s1)"
    and bal: "getBalance env s1 = (Inr (Some balance), s2)"
    and low: "balance < totalPrice q"
  shows "registerDomain env name pm s = (Inl (insufficientBalance env (totalPrice q) balance), s2)
         \<and> startsWith (message (insufficientBalance env (totalPrice q) balance))
             ''Insufficient balance''
         \<and> totalPrice q = jsAdd (calculatePrice name) (toDouble (1 / 1000))
         \<and> filter isTransactionEvent (newCalls s s2) = []"
proof -
  from avail have v: "isValid (validateDomainName name)"
    by (auto simp: checkDomainAvailability_def Let_def split: if_splits)
  from avail v have "q = quotePrice name"
    by (auto simp: checkDomainAvailability_def Let_def
        split: prod.splits sum.splits option.splits)
  then have q: "totalPrice q = jsAdd (calculatePrice name) (toDouble (1 / 1000))"
    by (simp add: quote_fields networkFee_def)
  have body: "registerDomain_try env name pm s
             = (Inl (insufficientBalance env (totalPrice q) balance), s2)"
    using conn v avail bal low by (simp add: registerDomain_try_def Let_def)
  have msg: "message (insufficientBalance env (totalPrice q) balance) \<noteq> []"
    by (simp add: insufficientBalance_def)
  have shape: "JsError (message (insufficientBalance env (totalPrice q) balance)) None
               = insufficientBalance env (totalPrice q) balance"
    by (simp add: insufficientBalance_def)
  have r: "registerDomain env name pm s
           = (Inl (insufficientBalance env (totalPrice q) balance), s2)"
    using body msg shape by (simp add: registerDomain_def)
  from checkDomainAvailability_calls [of env name s] avail
  obtain evs1 where e1: "calls s1 = calls s @ evs1" "\<forall>e \<in> set evs1. \<not> isTransactionEvent e"
    by auto
  from getBalance_no_transaction [of env s1] bal
  obtain evs2 where e2: "calls s2 = calls s1 @ evs2" "\<forall>e \<in> set evs2. \<not> isTransactionEvent e"
    by auto
  from e1 e2 have "filter isTransactionEvent (newCalls s s2) = []"
    by (simp add: newCalls_def filter_empty_conv)
  with r q insufficient_message show ?thesis by (intro conjI)
qed

text \<open>
  The witness is the registration of the name \<^verbatim>\<open>a\<close> with a balance of 51000000
  lamports: the balance is the double printed as 0.051, the total the double printed as
  0.051000000000000004, and the registration is refused.
\<close>

theorem insufficient_funds_before_transaction_witness:
  "fst (registerDomain stubEnv ''a'' ''SOL'' (stubSys 100))
     = Inl (JsError ''Insufficient balance. You need number SOL but only have number SOL'' None)
   \<and> calls (snd (registerDomain stubEnv ''a'' ''SOL'' (stubSys 100)))
       = [EvResolve (Some ''https://rpc.ankr.com/solana'') ''a''
            (Inl (JsError ''Account not found'' None)),
          EvGetBalance]
   \<and> totalPrice (quotePrice ''a'') = 3674937295934325 / 72057594037927936
   \<and> 7349874591868649 / 144115188075855872 < totalPrice (quotePrice ''a'')"
proof -
  define s1 where "s1 = (stubSys 100)\<lparr>world := 101,
     calls := [EvResolve (Some ''https://rpc.ankr.com/solana'') ''a''
            (Inl (JsError ''Account not found'' None))]\<rparr>"
  define s2 where "s2 = (stubSys 100)\<lparr>world := 102,
     calls := [EvResolve (Some ''https://rpc.ankr.com/solana'') ''a''
            (Inl (JsError ''Account not found'' None)),
          EvGetBalance]\<rparr>"
  have conn: "isConnected (wm (stubSys 100))" by (simp add: stubSys_def)
  have v: "isValid (validateDomainName ''a'')"
    by (simp add: validateDomainName_def valid_def invalid_def validCharRegex_test_def
        inCharClass_def startsWith_def endsWith_def)
  have avail: "checkDomainAvailability stubEnv ''a'' (stubSys 100)
     = (Some (Free ''a'' (quotePrice ''a'') ''mainnet'' ''number''), s1)"
    using v by (simp add: checkDomainAvailability_def Let_def stubEnv_def stubSys_def s1_def
        emit_def convertSOLToUSD_def)
  have bal: "getBalance stubEnv s1 = (Inr (Some (7349874591868649 / 144115188075855872)), s2)"
    by (simp add: getBalance_def numeral_3_eq_3 connection_getBalance_def delay_def emit_def
        stubEnv_def stubSys_def s1_def s2_def sample_balances)
  have t: "totalPrice (quotePrice ''a'') = 3674937295934325 / 72057594037927936"
    by (simp add: total_by_length)
  have low: "7349874591868649 / 144115188075855872 < totalPrice (quotePrice ''a'')"
    by (simp add: t)
  from insufficient_funds_before_transaction [OF conn avail bal low, of "''SOL''"]
  have "registerDomain stubEnv ''a'' ''SOL'' (stubSys 100)
        = (Inl (insufficientBalance stubEnv (totalPrice (quotePrice ''a''))
                 (7349874591868649 / 144115188075855872)), s2)"
    by (rule conjunct1)
  then have "fst (registerDomain stubEnv ''a'' ''SOL'' (stubSys 100))
     = Inl (JsError ''Insufficient balance. You need number SOL but only have number SOL'' None)"
    and "calls (snd (registerDomain stubEnv ''a'' ''SOL'' (stubSys 100)))
       = [EvResolve (Some ''https://rpc.ankr.com/solana'') ''a''
            (Inl (JsError ''Account not found'' None)),
          EvGetBalance]"
    by (simp_all add: insufficientBalance_def stubEnv_def s2_def)
  with t low show ?thesis by (intro conjI)
qed

text \<open>
  A balance equal to the total is enough: with 101000000 lamports the name \<^verbatim>\<open>abc\<close>,
  whose total is the double printed as 0.101, passes the balance check, and the
  registration goes on to build the transaction and to ask for a blockhash (which the
  sample world never delivers).
\<close>

lemma equal_balance_passes:
  "fst (registerDomain stubEnv ''abc'' ''SOL'' (stubSys 200))
     = Inl (JsError ''Transaction timed out. Please try again.'' None)
   \<and> filter isTransactionEvent (calls (snd (registerDomain stubEnv ''abc'' ''SOL'' (stubSys 200))))
       = [EvNewTransaction
            \<lparr>fromPubkey = Some ''Key1'', toPubkey = ''11111111111111111111111111111112'',
              lamports = 101000000, recentBlockhash = None, feePayer = None\<rparr>,
          EvGetLatestBlockhash]"
proof -
  have v: "isValid (validateDomainName ''abc'')"
    by (simp add: validateDomainName_def valid_def invalid_def validCharRegex_test_def
        inCharClass_def startsWith_def endsWith_def)
  have t: "totalPrice (quotePrice ''abc'') = 3638908498915361 / 36028797018963968"
    by (simp add: total_by_length)
  have m: "\<lfloor>jsMul (3638908498915361 / 36028797018963968) 1000000000\<rfloor> = 101000000"
    by code_simp
  have tm: "mapTransactionError (JsError ''Timeout getting blockhash'' None)
   = JsError ''Transaction timed out. Please try again.'' None"
    by (simp add: mapTransactionError_def startsWith_def)
  show ?thesis
    by (simp add: registerDomain_def registerDomain_try_def checkDomainAvailability_def v t m tm
        getBalance_def numeral_3_eq_3 connection_getBalance_def delay_def emit_def Let_def
        buildAndSend_def signAndSendTransaction_def signAndSend_try_def race_def
        stubEnv_def stubSys_def sample_balances)
qed

section \<open>Endpoint selection\<close>

lemma race_probe:
  "(\<exists>v. race 3000 e (fst (rpc_getVersion env ep w)) = Inr v) \<longleftrightarrow> probeSucceeds env ep w"
  by (cases "fst (rpc_getVersion env ep w)")
     (auto simp: race_def probeSucceeds_def split: sum.splits)

lemma probe_step_fail:
  assumes "\<not> probeSucceeds env ep (world s)"
  shows "probeEndpoints env network (ep # rest) s
         = probeEndpoints env network rest
             (s\<lparr>world := snd (rpc_getVersion env ep (world s)),
               calls := calls s @ [EvGetVersion ep]\<rparr>)"
proof -
  obtain p w1 where g: "rpc_getVersion env ep (world s) = (p, w1)"
    by (cases "rpc_getVersion env ep (world s)")
  from assms race_probe [of "JsError ''Connection timeout'' None" env ep "world s"] g
  have "\<forall>v. race 3000 (JsError ''Connection timeout'' None) p \<noteq> Inr v" by simp
  then obtain e where "race 3000 (JsError ''Connection timeout'' None) p = Inl e"
    by (cases "race 3000 (JsError ''Connection timeout'' None) p") auto
  with g show ?thesis by (simp add: emit_def)
qed

lemma probe_step_ok:
  assumes "probeSucceeds env ep (world s)"
  shows "probeEndpoints env network (ep # rest) s
         = (Inr (), dispatchEvent env ''networkChanged''
             (s\<lparr>world := snd (rpc_getVersion env ep (world s)),
               calls := calls s @ [EvGetVersion ep],
               wm := (wm s)\<lparr>connection := Some ep\<rparr>\<rparr>))"
proof -
  obtain p w1 where g: "rpc_getVersion env ep (world s) = (p, w1)"
    by (cases "rpc_getVersion env ep (world s)")
  from assms race_probe [of "JsError ''Connection timeout'' None" env ep "world s"] g
  obtain v where "race 3000 (JsError ''Connection timeout'' None) p = Inr v" by auto
  with g show ?thesis by (simp add: emit_def)
qed

lemma reachable_0: "reachable env (ep # rest) w 0 = probeSucceeds env ep w"
  by (simp add: reachable_def)

lemma reachable_Suc:
  "reachable env (ep # rest) w (Suc j) = reachable env rest (snd (rpc_getVersion env ep w)) j"
  by (simp add: reachable_def)

lemma probe_none_reachable:
  "\<forall>j < length eps. \<not> reachable env eps (world s) j \<Longrightarrow>
   probeEndpoints env network eps s
     = (Inl (JsError (''Failed to connect to '' @ network) None),
        s\<lparr>world := worldAfterProbes env eps (world s),
          calls := calls s @ map EvGetVersion eps\<rparr>)"
proof (induction eps arbitrary: s)
  case Nil
  then show ?case by simp
next
  case (Cons ep rest)
  let ?s1 = "s\<lparr>world := snd (rpc_getVersion env ep (world s)),
               calls := calls s @ [EvGetVersion ep]\<rparr>"
  from Cons.prems have f0: "\<not> probeSucceeds env ep (world s)"
    using reachable_0 [of env ep rest "world s"] by auto
  have "\<forall>j < length rest. \<not> reachable env rest (world ?s1) j"
  proof (intro allI impI)
    fix j assume "j < length rest"
    then have "Suc j < length (ep # rest)" by simp
    with Cons.prems have "\<not> reachable env (ep # rest) (world s) (Suc j)" by blast
    then show "\<not> reachable env rest (world ?s1) j" by (simp add: reachable_Suc)
  qed
  from Cons.IH [OF this] probe_step_fail [OF f0, of network rest]
  show ?case by simp
qed

lemma probe_first_reachable:
  "i < length eps \<Longrightarrow> reachable env eps (world s) i \<Longrightarrow>
   \<forall>j < i. \<not> reachable env eps (world s) j \<Longrightarrow>
   probeEndpoints env network eps s
     = (Inr (), dispatchEvent env ''networkChanged''
          (s\<lparr>world := worldAfterProbes env (take (Suc i) eps) (world s),
            calls := calls s @ map EvGetVersion (take (Suc i) eps),
            wm := (wm s)\<lparr>connection := Some (eps ! i)\<rparr>\<rparr>))"
proof (induction eps arbitrary: s i)
  case Nil
  then show ?case by simp
next
  case (Cons ep rest)
  let ?s1 = "s\<lparr>world := snd (rpc_getVersion env ep (world s)),
               calls := calls s @ [EvGetVersion ep]\<rparr>"
  show ?case
  proof (cases i)
    case 0
    with Cons.prems have "probeSucceeds env ep (world s)" by (simp add: reachable_0)
    from probe_step_ok [OF this, of network rest] 0 show ?thesis by simp
  next
    case (Suc k)
    with Cons.prems have f0: "\<not> probeSucceeds env ep (world s)"
      using reachable_0 [of env ep rest "world s"] by auto
    from Suc Cons.prems have k: "k < length rest" by simp
    from Suc Cons.prems have rk: "reachable env rest (world ?s1) k"
      by (simp add: reachable_Suc)
    have nk: "\<forall>j < k. \<not> reachable env rest (world ?s1) j"
    proof (intro allI impI)
      fix j assume "j < k"
      then have "Suc j < i" using Suc by simp
      with Cons.prems have "\<not> reachable env (ep # rest) (world s) (Suc j)" by blast
      then show "\<not> reachable env rest (world ?s1) j" by (simp add: reachable_Suc)
    qed
    from Cons.IH [OF k rk nk] probe_step_fail [OF f0, of network rest] Suc
    show ?thesis by simp
  qed
qed

text \<open>
  Claim C6. For every list of candidate endpoints the loop probes the candidates one
  after the other in list order, each probe raced against a timer of 3000 ms. When
  candidate \<open>i\<close> is the first whose probe succeeds within the timeout, the connection is
  set to it, the candidates after it are never probed and the call returns. When no
  candidate succeeds, every candidate has been probed once, the connection is left as it
  was and the call throws \<^verbatim>\<open>Failed to connect to\<close> followed by the network.
\<close>

theorem selects_first_reachable:
  "(i < length candidates \<and> reachable env candidates (world s) i
      \<and> (\<forall>j < i. \<not> reachable env candidates (world s) j) \<longrightarrow>
      fst (probeEndpoints env network candidates s) = Inr ()
      \<and> connection (wm (snd (probeEndpoints env network candidates s))) = Some (candidates ! i)
      \<and> newCalls s (snd (probeEndpoints env network candidates s))
          = map EvGetVersion (take (Suc i) candidates)
            @ (if hasWindow env then [EvDispatch ''networkChanged''] else []))
   \<and> ((\<forall>j < length candidates. \<not> reachable env candidates (world s) j) \<longrightarrow>
      fst (probeEndpoints env network candidates s)
        = Inl (JsError (''Failed to connect to '' @ network) None)
      \<and> connection (wm (snd (probeEndpoints env network candidates s))) = connection (wm s)
      \<and> newCalls s (snd (probeEndpoints env network candidates s)) = map EvGetVersion candidates)
   \<and> (probeSucceeds env endpoint w
        \<longleftrightarrow> (\<exists>t v. fst (rpc_getVersion env endpoint w) = Settles t (Inr v) \<and> t < 3000))
   \<and> initializeConnection env network s
        = probeEndpoints env network (rpcEndpoints env network)
            (s\<lparr>wm := (wm s)\<lparr>currentNetwork := network\<rparr>\<rparr>)"
proof (intro conjI)
  show "i < length candidates \<and> reachable env candidates (world s) i
      \<and> (\<forall>j < i. \<not> reachable env candidates (world s) j) \<longrightarrow>
      fst (probeEndpoints env network candidates s) = Inr ()
      \<and> connection (wm (snd (probeEndpoints env network candidates s))) = Some (candidates ! i)
      \<and> newCalls s (snd (probeEndpoints env network candidates s))
          = map EvGetVersion (take (Suc i) candidates)
            @ (if hasWindow env then [EvDispatch ''networkChanged''] else [])"
  proof
    assume h: "i < length candidates \<and> reachable env candidates (world s) i
      \<and> (\<forall>j < i. \<not> reachable env candidates (world s) j)"
    then have "probeEndpoints env network candidates s
     = (Inr (), dispatchEvent env ''networkChanged''
          (s\<lparr>world := worldAfterProbes env (take (Suc i) candidates) (world s),
            calls := calls s @ map EvGetVersion (take (Suc i) candidates),
            wm := (wm s)\<lparr>connection := Some (candidates ! i)\<rparr>\<rparr>))"
      by (intro probe_first_reachable) simp_all
    then show "fst (probeEndpoints env network candidates s) = Inr ()
      \<and> connection (wm (snd (probeEndpoints env network candidates s))) = Some (candidates ! i)
      \<and> newCalls s (snd (probeEndpoints env network candidates s))
          = map EvGetVersion (take (Suc i) candidates)
            @ (if hasWindow env then [EvDispatch ''networkChanged''] else [])"
      by (simp add: dispatchEvent_def emit_def newCalls_def)
  qed
next
  show "(\<forall>j < length candidates. \<not> reachable env candidates (world s) j) \<longrightarrow>
      fst (probeEndpoints env network candidates s)
        = Inl (JsError (''Failed to connect to '' @ network) None)
      \<and> connection (wm (snd (probeEndpoints env network candidates s))) = connection (wm s)
      \<and> newCalls s (snd (probeEndpoints env network candidates s)) = map EvGetVersion candidates"
  proof
    assume "\<forall>j < length candidates. \<not> reachable env candidates (world s) j"
    from probe_none_reachable [OF this, of network]
    show "fst (probeEndpoints env network candidates s)
        = Inl (JsError (''Failed to connect to '' @ network) None)
      \<and> connection (wm (snd (probeEndpoints env network candidates s))) = connection (wm s)
      \<and> newCalls s (snd (probeEndpoints env network candidates s)) = map EvGetVersion candidates"
      by (simp add: newCalls_def)
  qed
next
  show "probeSucceeds env endpoint w
        \<longleftrightarrow> (\<exists>t v. fst (rpc_getVersion env endpoint w) = Settles t (Inr v) \<and> t < 3000)"
    by (cases "fst (rpc_getVersion env endpoint w)")
       (auto simp: probeSucceeds_def split: sum.splits)
next
  show "initializeConnection env network s
        = probeEndpoints env network (rpcEndpoints env network)
            (s\<lparr>wm := (wm s)\<lparr>currentNetwork := network\<rparr>\<rparr>)"
    by (simp add: initializeConnection_def)
qed

theorem selects_first_reachable_witness:
  "\<not> reachable stubEnv [''https://a.example'', ''https://b.example'', ''https://c.example'']
        (world (stubSys 0)) 0
   \<and> reachable stubEnv [''https://a.example'', ''https://b.example'', ''https://c.example'']
        (world (stubSys 0)) 1
   \<and> fst (probeEndpoints stubEnv ''mainnet''
        [''https://a.example'', ''https://b.example'', ''https://c.example''] (stubSys 0)) = Inr ()
   \<and> connection (wm (snd (probeEndpoints stubEnv ''mainnet''
        [''https://a.example'', ''https://b.example'', ''https://c.example''] (stubSys 0))))
       = Some ''https://b.example''
   \<and> newCalls (stubSys 0) (snd (probeEndpoints stubEnv ''mainnet''
        [''https://a.example'', ''https://b.example'', ''https://c.example''] (stubSys 0)))
       = [EvGetVersion ''https://a.example'', EvGetVersion ''https://b.example'',
          EvDispatch ''networkChanged'']
   \<and> fst (probeEndpoints stubEnv ''devnet'' [''https://a.example''] (stubSys 0))
       = Inl (JsError ''Failed to connect to devnet'' None)"
proof -
  have r0: "\<not> reachable stubEnv [''https://a.example'', ''https://b.example'', ''https://c.example'']
        (world (stubSys 0)) 0"
    by (simp add: reachable_def probeSucceeds_def stubEnv_def stubSys_def)
  have r1: "reachable stubEnv [''https://a.example'', ''https://b.example'', ''https://c.example'']
        (world (stubSys 0)) 1"
    by (simp add: reachable_def probeSucceeds_def stubEnv_def stubSys_def)
  have n0: "\<forall>j<1. \<not> reachable stubEnv
        [''https://a.example'', ''https://b.example'', ''https://c.example''] (world (stubSys 0)) j"
    using r0 by simp
  have a0: "\<forall>j < length [''https://a.example'']. \<not> reachable stubEnv [''https://a.example'']
        (world (stubSys 0)) j"
    by (simp add: reachable_def probeSucceeds_def stubEnv_def stubSys_def)
  from selects_first_reachable [of 1
      "[''https://a.example'', ''https://b.example'', ''https://c.example'']" stubEnv "stubSys 0"
      "''mainnet''"]
    selects_first_reachable [of _ "[''https://a.example'']" stubEnv "stubSys 0" "''devnet''"]
    r0 r1 n0 a0
  show ?thesis by (simp add: stubEnv_def)
qed

section \<open>Suggestions\<close>

lemma check_valid_calls:
  "isValid (validateDomainName name) \<Longrightarrow>
   calls (snd (checkDomainAvailability env name s))
     = calls s @ [EvResolve (connection (wm s)) name
                    (fst (sns_resolve env (connection (wm s)) name (world s)))]"
  by (cases "sns_resolve env (connection (wm s)) name (world s)")
     (auto simp: checkDomainAvailability_def Let_def emit_def split: sum.splits option.splits)

lemma check_free:
  assumes "checkDomainAvailability env name s = (Some (Free d q n usd), s1)"
  shows "d = name \<and> q = quotePrice name
         \<and> (\<exists>e. fst (sns_resolve env (connection (wm s)) name (world s)) = Inl e)"
  using assms
  by (cases "sns_resolve env (connection (wm s)) name (world s)")
     (auto simp: checkDomainAvailability_def Let_def split: if_splits sum.splits option.splits)

lemma reportedAvailable_mono:
  "reportedAvailable env evs sg \<Longrightarrow> reportedAvailable env (evs @ later) sg"
  by (auto simp: reportedAvailable_def)

lemma suggestLoop_reported:
  assumes "calls s = pre @ mid" and "\<forall>sg \<in> set acc. reportedAvailable env mid sg"
  shows "\<exists>mid'. calls (snd (suggestLoop env base sfxs acc s)) = pre @ mid'
           \<and> (\<forall>sg \<in> set (fst (suggestLoop env base sfxs acc s)). reportedAvailable env mid' sg)"
  using assms
proof (induction sfxs arbitrary: acc s mid)
  case Nil
  then show ?case by simp
next
  case (Cons sfx rest)
  show ?case
  proof (cases "3 \<le> length acc")
    case True
    with Cons.prems show ?thesis by simp
  next
    case short: False
    show ?thesis
    proof (cases "isValid (validateDomainName (base @ sfx))")
      case False
      with short Cons.IH [OF Cons.prems] show ?thesis by simp
    next
      case v: True
      obtain r s1 where c: "checkDomainAvailability env (base @ sfx) s = (r, s1)"
        by (cases "checkDomainAvailability env (base @ sfx) s")
      let ?ev = "EvResolve (connection (wm s)) (base @ sfx)
                   (fst (sns_resolve env (connection (wm s)) (base @ sfx) (world s)))"
      from check_valid_calls [OF v, of env s] c Cons.prems(1)
      have calls1: "calls s1 = pre @ (mid @ [?ev])" by simp
      from Cons.prems(2) have old: "\<forall>sg \<in> set acc. reportedAvailable env (mid @ [?ev]) sg"
        by (simp add: reportedAvailable_mono)
      show ?thesis
      proof (cases "\<exists>d q n usd. r = Some (Free d q n usd)")
        case True
        then obtain d q n usd where r: "r = Some (Free d q n usd)" by blast
        from check_free [of env "base @ sfx" s d q n usd s1] c r
        have f: "d = base @ sfx" "q = quotePrice (base @ sfx)"
          "\<exists>e. fst (sns_resolve env (connection (wm s)) (base @ sfx) (world s)) = Inl e"
          by simp_all
        have new: "reportedAvailable env (mid @ [?ev])
                     \<lparr>sg_domain = base @ sfx, sg_price = totalPrice q\<rparr>"
          unfolding reportedAvailable_def
        proof (intro conjI)
          from f(3) obtain e
            where "fst (sns_resolve env (connection (wm s)) (base @ sfx) (world s)) = Inl e"
            by blast
          then show "\<exists>ca e. EvResolve ca
              (sg_domain \<lparr>sg_domain = base @ sfx, sg_price = totalPrice q\<rparr>) (Inl e)
                \<in> set (mid @ [?ev])"
            by (intro exI [of _ "connection (wm s)"] exI [of _ e]) simp
        next
          from c r f have "fst (checkDomainAvailability env (base @ sfx) s)
              = Some (Free (base @ sfx) (quotePrice (base @ sfx)) n usd)" by simp
          then show "\<exists>s' n usd. fst (checkDomainAvailability env
                (sg_domain \<lparr>sg_domain = base @ sfx, sg_price = totalPrice q\<rparr>) s')
              = Some (Free (sg_domain \<lparr>sg_domain = base @ sfx, sg_price = totalPrice q\<rparr>)
                   (quotePrice (sg_domain \<lparr>sg_domain = base @ sfx, sg_price = totalPrice q\<rparr>))
                   n usd)"
            by auto
        next
          from f(2) show "sg_price \<lparr>sg_domain = base @ sfx, sg_price = totalPrice q\<rparr>
              = totalPrice (quotePrice
                  (sg_domain \<lparr>sg_domain = base @ sfx, sg_price = totalPrice q\<rparr>))"
            by simp
        qed
        from old new have all: "\<forall>sg \<in> set (acc @ [\<lparr>sg_domain = base @ sfx, sg_price = totalPrice q\<rparr>]).
            reportedAvailable env (mid @ [?ev]) sg" by simp
        from Cons.IH [OF calls1 all] short v c r show ?thesis by simp
      next
        case False
        with short v c have "suggestLoop env base (sfx # rest) acc s
            = suggestLoop env base rest acc s1"
          by (auto split: option.splits availability.splits)
        with Cons.IH [OF calls1 old] show ?thesis by simp
      qed
    qed
  qed
qed

lemma suggestLoop_domains:
  "\<exists>ds. map sg_domain (fst (suggestLoop env base sfxs acc s)) = map sg_domain acc @ ds
        \<and> subseq ds (map (\<lambda>x. base @ x) sfxs)
        \<and> (\<forall>d \<in> set ds. isValid (validateDomainName d))"
proof (induction sfxs arbitrary: acc s)
  case Nil
  then show ?case by simp
next
  case (Cons sfx rest)
  show ?case
  proof (cases "3 \<le> length acc")
    case True
    then show ?thesis by simp
  next
    case short: False
    show ?thesis
    proof (cases "isValid (validateDomainName (base @ sfx))")
      case False
      from Cons.IH [of acc s] obtain ds where
        "map sg_domain (fst (suggestLoop env base rest acc s)) = map sg_domain acc @ ds"
        "subseq ds (map (\<lambda>x. base @ x) rest)" "\<forall>d \<in> set ds. isValid (validateDomainName d)"
        by blast
      with short False show ?thesis by (intro exI [of _ ds]) (simp add: list_emb_Cons)
    next
      case v: True
      obtain r s1 where c: "checkDomainAvailability env (base @ sfx) s = (r, s1)"
        by (cases "checkDomainAvailability env (base @ sfx) s")
      show ?thesis
      proof (cases "\<exists>d q n usd. r = Some (Free d q n usd)")
        case True
        then obtain d q n usd where r: "r = Some (Free d q n usd)" by blast
        from Cons.IH [of "acc @ [\<lparr>sg_domain = base @ sfx, sg_price = totalPrice q\<rparr>]" s1]
        obtain ds where
          "map sg_domain (fst (suggestLoop env base rest
              (acc @ [\<lparr>sg_domain = base @ sfx, sg_price = totalPrice q\<rparr>]) s1))
           = map sg_domain (acc @ [\<lparr>sg_domain = base @ sfx, sg_price = totalPrice q\<rparr>]) @ ds"
          "subseq ds (map (\<lambda>x. base @ x) rest)" "\<forall>d \<in> set ds. isValid (validateDomainName d)"
          by blast
        with short v c r show ?thesis by (intro exI [of _ "(base @ sfx) # ds"]) simp
      next
        case False
        with short v c have e: "suggestLoop env base (sfx # rest) acc s
            = suggestLoop env base rest acc s1"
          by (auto split: option.splits availability.splits)
        from Cons.IH [of acc s1] obtain ds where
          "map sg_domain (fst (suggestLoop env base rest acc s1)) = map sg_domain acc @ ds"
          "subseq ds (map (\<lambda>x. base @ x) rest)" "\<forall>d \<in> set ds. isValid (validateDomainName d)"
          by blast
        with e show ?thesis by (intro exI [of _ ds]) (simp add: list_emb_Cons)
      qed
    qed
  qed
qed

lemma search_domains:
  "subseq (map sg_domain (fst (searchSimilarDomains env base s)))
          [base @ ''1'', base @ ''2'', base @ ''x'']
   \<and> (\<forall>sg \<in> set (fst (searchSimilarDomains env base s)). isValid (validateDomainName (sg_domain sg)))"
  using suggestLoop_domains [of env base suffixes "[]" s]
  by (auto simp: searchSimilarDomains_def suffixes_def)

lemma search_length: "length (fst (searchSimilarDomains env base s)) \<le> 3"
proof -
  from search_domains [of env base s]
  have "length (map sg_domain (fst (searchSimilarDomains env base s)))
        \<le> length [base @ ''1'', base @ ''2'', base @ ''x'']"
    by (intro list_emb_length [of "(=)"]) simp
  then show ?thesis by simp
qed

lemma search_reported:
  "\<forall>sg \<in> set (fst (searchSimilarDomains env base s)).
     reportedAvailable env (newCalls s (snd (searchSimilarDomains env base s))) sg"
proof -
  from suggestLoop_reported [of s "calls s" "[]" "[]" env base suffixes]
  obtain mid' where "calls (snd (suggestLoop env base suffixes [] s)) = calls s @ mid'"
    "\<forall>sg \<in> set (fst (suggestLoop env base suffixes [] s)). reportedAvailable env mid' sg"
    by auto
  then show ?thesis by (simp add: searchSimilarDomains_def newCalls_def)
qed

text \<open>
  Claim C10. searchSimilarDomains returns at most 3 suggestions. Their names are, in
  order, among the base name followed by 1, 2 and x. Each of them passes validation, was
  looked up during the search with a lookup that threw (which is how the availability
  check reports a name as available) and carries the total price of that check, the
  double sum of the base price of the name and the network fee.
\<close>

theorem suggestions_checked:
  "length (fst (searchSimilarDomains env base s)) \<le> 3
   \<and> subseq (map sg_domain (fst (searchSimilarDomains env base s)))
             [base @ ''1'', base @ ''2'', base @ ''x'']
   \<and> (\<forall>sg \<in> set (fst (searchSimilarDomains env base s)).
         sg_domain sg \<in> {base @ ''1'', base @ ''2'', base @ ''x''}
         \<and> isValid (validateDomainName (sg_domain sg))
         \<and> reportedAvailable env (newCalls s (snd (searchSimilarDomains env base s))) sg
         \<and> sg_price sg = jsAdd (calculatePrice (sg_domain sg)) (toDouble (1 / 1000)))"
proof (intro conjI ballI)
  show "length (fst (searchSimilarDomains env base s)) \<le> 3" by (rule search_length)
next
  show "subseq (map sg_domain (fst (searchSimilarDomains env base s)))
             [base @ ''1'', base @ ''2'', base @ ''x'']"
    using search_domains [of env base s] by blast
next
  fix sg assume m: "sg \<in> set (fst (searchSimilarDomains env base s))"
  then have d: "sg_domain sg \<in> set (map sg_domain (fst (searchSimilarDomains env base s)))"
    by simp
  from search_domains [of env base s]
  have "subseq (map sg_domain (fst (searchSimilarDomains env base s)))
          [base @ ''1'', base @ ''2'', base @ ''x'']" by blast
  from list_emb_set [OF this d]
  obtain y where "y \<in> set [base @ ''1'', base @ ''2'', base @ ''x'']" "sg_domain sg = y"
    by blast
  then show "sg_domain sg \<in> {base @ ''1'', base @ ''2'', base @ ''x''}" by auto
next
  fix sg assume "sg \<in> set (fst (searchSimilarDomains env base s))"
  with search_domains [of env base s] show "isValid (validateDomainName (sg_domain sg))" by blast
next
  fix sg assume "sg \<in> set (fst (searchSimilarDomains env base s))"
  with search_reported [of env base s]
  show "reportedAvailable env (newCalls s (snd (searchSimilarDomains env base s))) sg" by blast
next
  fix sg assume "sg \<in> set (fst (searchSimilarDomains env base s))"
  with search_reported [of env base s]
  have "sg_price sg = totalPrice (quotePrice (sg_domain sg))"
    by (auto simp: reportedAvailable_def)
  then show "sg_price sg = jsAdd (calculatePrice (sg_domain sg)) (toDouble (1 / 1000))"
    by (simp add: quote_fields networkFee_def)
qed

theorem suggestions_checked_witness:
  "fst (searchSimilarDomains stubEnv ''a'' (stubSys 0))
     = [\<lparr>sg_domain = ''a1'', sg_price = 3674937295934325 / 72057594037927936\<rparr>,
        \<lparr>sg_domain = ''a2'', sg_price = 3674937295934325 / 72057594037927936\<rparr>,
        \<lparr>sg_domain = ''ax'', sg_price = 3674937295934325 / 72057594037927936\<rparr>]
   \<and> fst (searchSimilarDomains stubEnv ''myname'' (stubSys 0))
     = [\<lparr>sg_domain = ''myname1'', sg_price = 6052837899185947 / 288230376151711744\<rparr>,
        \<lparr>sg_domain = ''mynamex'', sg_price = 6052837899185947 / 288230376151711744\<rparr>]
   \<and> list_all (\<lambda>sg.
         sg_domain sg \<in> {''a'' @ ''1'', ''a'' @ ''2'', ''a'' @ ''x''}
         \<and> isValid (validateDomainName (sg_domain sg))
         \<and> reportedAvailable stubEnv
               (newCalls (stubSys 0) (snd (searchSimilarDomains stubEnv ''a'' (stubSys 0)))) sg
         \<and> sg_price sg = jsAdd (calculatePrice (sg_domain sg)) (toDouble (1 / 1000)))
       (fst (searchSimilarDomains stubEnv ''a'' (stubSys 0)))"
proof -
  have v: "isValid (validateDomainName ''myname1'')" "isValid (validateDomainName ''myname2'')"
    "isValid (validateDomainName ''mynamex'')" "isValid (validateDomainName ''a1'')"
    "isValid (validateDomainName ''a2'')" "isValid (validateDomainName ''ax'')"
    by (simp_all add: validateDomainName_def valid_def invalid_def validCharRegex_test_def
        inCharClass_def startsWith_def endsWith_def)
  have p: "totalPrice (quotePrice ''myname1'') = 6052837899185947 / 288230376151711744"
    "totalPrice (quotePrice ''mynamex'') = 6052837899185947 / 288230376151711744"
    "totalPrice (quotePrice ''a1'') = 3674937295934325 / 72057594037927936"
    "totalPrice (quotePrice ''a2'') = 3674937295934325 / 72057594037927936"
    "totalPrice (quotePrice ''ax'') = 3674937295934325 / 72057594037927936"
    by (simp_all add: total_by_length)
  have r: "fst (searchSimilarDomains stubEnv ''myname'' (stubSys 0))
     = [\<lparr>sg_domain = ''myname1'', sg_price = 6052837899185947 / 288230376151711744\<rparr>,
        \<lparr>sg_domain = ''mynamex'', sg_price = 6052837899185947 / 288230376151711744\<rparr>]"
    using v p
    by (simp add: searchSimilarDomains_def suffixes_def checkDomainAvailability_def Let_def
        stubEnv_def stubSys_def emit_def)
  have ra: "fst (searchSimilarDomains stubEnv ''a'' (stubSys 0))
     = [\<lparr>sg_domain = ''a1'', sg_price = 3674937295934325 / 72057594037927936\<rparr>,
        \<lparr>sg_domain = ''a2'', sg_price = 3674937295934325 / 72057594037927936\<rparr>,
        \<lparr>sg_domain = ''ax'', sg_price = 3674937295934325 / 72057594037927936\<rparr>]"
    using v p
    by (simp add: searchSimilarDomains_def suffixes_def checkDomainAvailability_def Let_def
        stubEnv_def stubSys_def emit_def)
  from suggestions_checked [of stubEnv "''a''" "stubSys 0"]
  have "list_all (\<lambda>sg.
         sg_domain sg \<in> {''a'' @ ''1'', ''a'' @ ''2'', ''a'' @ ''x''}
         \<and> isValid (validateDomainName (sg_domain sg))
         \<and> reportedAvailable stubEnv
               (newCalls (stubSys 0) (snd (searchSimilarDomains stubEnv ''a'' (stubSys 0)))) sg
         \<and> sg_price sg = jsAdd (calculatePrice (sg_domain sg)) (toDouble (1 / 1000)))
       (fst (searchSimilarDomains stubEnv ''a'' (stubSys 0)))"
    unfolding list_all_iff by blast
  with ra r show ?thesis by (intro conjI)
qed

section \<open>Progress steps of a registration attempt\<close>

subsection \<open>Only the handler touches the UI\<close>

lemma ui_emit: "ui (emit e s) = ui s"
  by (simp add: emit_def)

lemma ui_delay: "ui (delay ms s) = ui s"
  by (simp add: delay_def emit_def)

lemma ui_onUi: "ui (onUi f s) = f (ui s)"
  by (simp add: onUi_def)

lemma ui_check: "ui (snd (checkDomainAvailability env name s)) = ui s"
  by (cases "sns_resolve env (connection (wm s)) name (world s)")
     (auto simp: checkDomainAvailability_def Let_def emit_def split: sum.splits option.splits)

lemma ui_connection_getBalance: "ui (snd (connection_getBalance env s)) = ui s"
  by (auto simp: connection_getBalance_def emit_def split: option.splits prod.splits)

lemma ui_balanceLoop: "ui (snd (balanceLoop env n s)) = ui s"
proof (induction n arbitrary: s)
  case 0
  then show ?case by simp
next
  case (Suc n)
  obtain r s1 where c: "connection_getBalance env s = (r, s1)"
    by (cases "connection_getBalance env s")
  with ui_connection_getBalance [of env s] have u1: "ui s1 = ui s" by simp
  from Suc.IH [of "delay 1000 s1"] have "ui (snd (balanceLoop env n (delay 1000 s1))) = ui s"
    by (simp add: ui_delay u1)
  with c u1 show ?case by (cases r) auto
qed

lemma ui_getBalance: "ui (snd (getBalance env s)) = ui s"
proof (cases "\<not> isConnected (wm s) \<or> publicKey (wm s) = None")
  case True
  then show ?thesis by (auto simp: getBalance_def)
next
  case False
  obtain r s1 where b: "balanceLoop env 3 s = (r, s1)" by (cases "balanceLoop env 3 s")
  with ui_balanceLoop [of env 3 s] have "ui s1 = ui s" by simp
  with False b show ?thesis by (cases r) (auto simp: getBalance_def)
qed

lemma ui_signAndSend_try: "ui (snd (signAndSend_try env tx s)) = ui s"
  by (auto simp: signAndSend_try_def Let_def emit_def
      split: option.splits prod.splits sum.splits)

lemma ui_signAndSendTransaction: "ui (snd (signAndSendTransaction env tx s)) = ui s"
proof -
  obtain r s1 where t: "signAndSend_try env tx s = (r, s1)" by (cases "signAndSend_try env tx s")
  with ui_signAndSend_try [of env tx s] have "ui s1 = ui s" by simp
  with t show ?thesis by (cases r) (auto simp: signAndSendTransaction_def)
qed

lemma ui_buildAndSend: "ui (snd (buildAndSend env name pm cost s)) = ui s"
proof -
  let ?tx = "\<lparr>fromPubkey = publicKey (wm s), toPubkey = ''11111111111111111111111111111112'',
              lamports = \<lfloor>jsMul cost 1000000000\<rfloor>, recentBlockhash = None, feePayer = None\<rparr>"
  obtain r s2 where t: "signAndSendTransaction env ?tx (emit (EvNewTransaction ?tx) s) = (r, s2)"
    by (cases "signAndSendTransaction env ?tx (emit (EvNewTransaction ?tx) s)")
  with ui_signAndSendTransaction [of env ?tx "emit (EvNewTransaction ?tx) s"]
  have "ui s2 = ui s" by (simp add: ui_emit)
  with t show ?thesis by (cases r) (auto simp: buildAndSend_def Let_def)
qed

lemma ui_registerDomain_try: "ui (snd (registerDomain_try env name pm s)) = ui s"
proof -
  obtain a s1 where c: "checkDomainAvailability env name s = (a, s1)"
    by (cases "checkDomainAvailability env name s")
  with ui_check [of env name s] have u1: "ui s1 = ui s" by simp
  obtain b s2 where g: "getBalance env s1 = (b, s2)" by (cases "getBalance env s1")
  with ui_getBalance [of env s1] u1 have u2: "ui s2 = ui s" by simp
  have u3: "ui (snd (buildAndSend env name pm cost s2)) = ui s" for cost
    by (simp add: ui_buildAndSend u2)
  from c g u1 u2 u3 show ?thesis
    by (auto simp: registerDomain_try_def Let_def
        split: option.splits availability.splits sum.splits)
qed

lemma ui_registerDomain: "ui (snd (registerDomain env name pm s)) = ui s"
proof -
  obtain r s1 where t: "registerDomain_try env name pm s = (r, s1)"
    by (cases "registerDomain_try env name pm s")
  with ui_registerDomain_try [of env name pm s] have "ui s1 = ui s" by simp
  with t show ?thesis by (cases r) (auto simp: registerDomain_def)
qed

subsection \<open>Frames of the step operations\<close>

lemma frames_observe: "frames (observe u) = frames u @ [activeSteps u]"
  by (simp add: observe_def)

lemma active_observe: "activeSteps (observe u) = activeSteps u"
  by (simp add: observe_def activeSteps_def)

lemma active_reset: "activeSteps (resetTransactionSteps u) = []"
  by (simp add: resetTransactionSteps_def observe_def activeSteps_def clearStep_def)

lemma frames_reset: "frames (resetTransactionSteps u) = frames u @ [[]]"
proof -
  have "activeSteps (fold clearStep [1, 2, 3, 4] u) = []"
    by (simp add: activeSteps_def clearStep_def)
  moreover have "frames (fold clearStep [1, 2, 3, 4] u) = frames u"
    by (simp add: clearStep_def)
  ultimately show ?thesis by (simp add: resetTransactionSteps_def frames_observe)
qed

lemma active_set_active:
  "activeSteps (setTransactionStep n StatusActive u)
   = filter (\<lambda>k. k = n \<or> k \<in> set (activeSteps u)) [1, 2, 3, 4]"
  by (auto simp: setTransactionStep_def Let_def observe_def activeSteps_def)

lemma active_set_completed:
  "activeSteps (setTransactionStep n StatusCompleted u) = filter (\<lambda>k. k \<noteq> n) (activeSteps u)"
  by (auto simp: setTransactionStep_def Let_def observe_def activeSteps_def)

lemma frames_set:
  "frames (setTransactionStep n st u) = frames u @ [activeSteps (setTransactionStep n st u)]"
  by (cases st) (simp_all add: setTransactionStep_def Let_def observe_def activeSteps_def)

lemma frames_notification: "frames (showNotification m k u) = frames u"
  by (simp add: showNotification_def)

lemma active_notification: "activeSteps (showNotification m k u) = activeSteps u"
  by (simp add: showNotification_def activeSteps_def)

lemma show_status:
  "frames (showTransactionStatus u) = frames u @ [[], [1]]
   \<and> activeSteps (showTransactionStatus u) = [1]"
proof -
  let ?u = "resetTransactionSteps (u\<lparr>statusHidden := False\<rparr>)"
  have a: "activeSteps ?u = []" by (rule active_reset)
  have f: "frames ?u = frames u @ [[]]" by (simp add: frames_reset)
  have a1: "activeSteps (setTransactionStep 1 StatusActive ?u) = [1]"
    by (simp add: active_set_active a)
  with f show ?thesis by (simp add: showTransactionStatus_def frames_set)
qed

lemma error_status:
  assumes "activeSteps u = [n] \<or> activeSteps u = []"
  shows "frames (updateTransactionStatus_error m u) = frames u @ [[]]"
proof -
  let ?c = "getCurrentActiveStep u"
  let ?u1 = "u\<lparr>steps := (steps u)(?c := (steps u ?c)\<lparr>cls_active := False, cls_error := True\<rparr>)\<rparr>"
  have "activeSteps ?u1 = filter (\<lambda>k. k \<noteq> ?c) (activeSteps u)"
    by (simp add: activeSteps_def)
  with assms have "activeSteps ?u1 = []"
    by (auto simp: getCurrentActiveStep_def)
  then show ?thesis
    by (simp add: updateTransactionStatus_error_def Let_def frames_notification frames_observe)
qed

lemma success_status:
  assumes "activeSteps u = [4]"
  shows "frames (updateTransactionStatus_success n u) = frames u @ [[4], [4], [4], []]
         \<and> activeSteps (updateTransactionStatus_success n u) = []"
  using assms
  by (simp add: updateTransactionStatus_success_def frames_notification active_notification
      frames_set active_set_completed)

lemma before_registration:
  fixes u :: uiManager
  defines "u4 \<equiv> setTransactionStep 2 StatusActive (setTransactionStep 1 StatusCompleted
                  (setTransactionStep 1 StatusActive (showTransactionStatus u)))"
  shows "frames u4 = frames u @ [[], [1], [1], [], [2]] \<and> activeSteps u4 = [2]"
  using show_status [of u]
  by (simp add: u4_def frames_set active_set_active active_set_completed)

lemma after_registration_steps:
  fixes u4 :: uiManager
  assumes "activeSteps u4 = [2]"
  defines "u8 \<equiv> setTransactionStep 4 StatusActive (setTransactionStep 3 StatusCompleted
                  (setTransactionStep 3 StatusActive (setTransactionStep 2 StatusCompleted u4)))"
  shows "frames u8 = frames u4 @ [[], [3], [], [4]] \<and> activeSteps u8 = [4]"
  using assms(1)
  by (simp add: u8_def frames_set active_set_active active_set_completed)

subsection \<open>Frames of the handler\<close>

lemma afterRegistration_frames:
  assumes a: "activeSteps (ui s) = [2]"
  shows "frames (ui (afterRegistration env res s))
           = frames (ui s) @ [[], [3], [], [4], [4], [4], [4], []]
         \<or> frames (ui (afterRegistration env res s))
           = frames (ui s) @ [[], [3], [], [4], [4], [4], [4], [], []]"
proof -
  define u8 where "u8 = setTransactionStep 4 StatusActive (setTransactionStep 3 StatusCompleted
      (setTransactionStep 3 StatusActive (setTransactionStep 2 StatusCompleted (ui s))))"
  define s5 where "s5 = onUi (updateTransactionStatus_success (rg_network res))
      (delay 1000 (onUi (setTransactionStep 4 StatusActive)
        (onUi (setTransactionStep 3 StatusCompleted)
          (delay 2000 (onUi (setTransactionStep 3 StatusActive)
            (onUi (setTransactionStep 2 StatusCompleted) s))))))"
  from after_registration_steps [OF a]
  have f8: "frames u8 = frames (ui s) @ [[], [3], [], [4]]" and a8: "activeSteps u8 = [4]"
    by (simp_all add: u8_def)
  have u5: "ui s5 = updateTransactionStatus_success (rg_network res) u8"
    by (simp add: s5_def u8_def ui_onUi ui_delay)
  from success_status [OF a8, of "rg_network res"] f8 u5
  have f5: "frames (ui s5) = frames (ui s) @ [[], [3], [], [4], [4], [4], [4], []]"
    and a5: "activeSteps (ui s5) = []"
    by simp_all
  obtain b s6 where g: "getBalance env s5 = (b, s6)" by (cases "getBalance env s5")
  with ui_getBalance [of env s5] have u6: "ui s6 = ui s5" by simp
  have e6: "frames (updateTransactionStatus_error m (ui s6)) = frames (ui s5) @ [[]]" for m
    using error_status [of "ui s6" _ m] a5 u6 by simp
  have unfold: "afterRegistration env res s
      = (case getBalance env s5 of
           (Inl e, s6) \<Rightarrow> onUi (updateTransactionStatus_error (message e)) s6
         | (Inr newBalance, s6) \<Rightarrow>
             (case publicKey (wm s6) of
                None \<Rightarrow> onUi (updateTransactionStatus_error (typeErrorMessage env ''toString'')) s6
              | Some pk \<Rightarrow> onUi (\<lambda>u. u\<lparr>walletButton := Some (pk, newBalance)\<rparr>) s6))"
    by (simp add: afterRegistration_def Let_def s5_def)
  show ?thesis
  proof (cases b)
    case (Inl e)
    with g unfold e6 f5 show ?thesis by (simp add: ui_onUi)
  next
    case (Inr nb)
    show ?thesis
    proof (cases "publicKey (wm s6)")
      case None
      with g Inr unfold e6 f5 show ?thesis by (simp add: ui_onUi)
    next
      case (Some pk)
      with g Inr unfold u6 f5 show ?thesis by (simp add: ui_onUi)
    qed
  qed
qed

lemma handler_not_started:
  assumes "\<not> isConnected (wm s) \<or> currentDomain (ui s) = None \<or> currentDomain (ui s) = Some []"
  shows "newFrames s (handleDomainRegistration env s) = []"
  using assms
  by (auto simp: handleDomainRegistration_def newFrames_def ui_onUi frames_notification)

lemma startAttempt_ui:
  "frames (ui (startAttempt s)) = frames (ui s) @ [[], [1], [1], [], [2]]
   \<and> activeSteps (ui (startAttempt s)) = [2]"
proof -
  have "ui (startAttempt s) = setTransactionStep 2 StatusActive (setTransactionStep 1 StatusCompleted
                  (setTransactionStep 1 StatusActive (showTransactionStatus (ui s))))"
    by (simp add: startAttempt_def Let_def ui_onUi ui_delay)
  with before_registration [of "ui s"] show ?thesis by simp
qed

lemma handler_failed:
  assumes c: "isConnected (wm s)" and d: "currentDomain (ui s) = Some name" and n: "name \<noteq> []"
    and r: "fst (registerDomain env name (paymentMethodValue (ui s)) (startAttempt s)) = Inl e"
  shows "newFrames s (handleDomainRegistration env s) = [[], [1], [1], [], [2], []]"
proof -
  obtain s5 where g: "registerDomain env name (paymentMethodValue (ui s)) (startAttempt s)
      = (Inl e, s5)"
    using r by (cases "registerDomain env name (paymentMethodValue (ui s)) (startAttempt s)") simp
  with ui_registerDomain [of env name "paymentMethodValue (ui s)" "startAttempt s"]
  have u5: "ui s5 = ui (startAttempt s)" by simp
  from error_status [of "ui s5" 2 "message e"] startAttempt_ui [of s] u5
  have "frames (updateTransactionStatus_error (message e) (ui s5))
        = frames (ui s) @ [[], [1], [1], [], [2], []]" by simp
  with c d n g show ?thesis
    by (simp add: handleDomainRegistration_def Let_def newFrames_def ui_onUi)
qed

lemma handler_registered:
  assumes c: "isConnected (wm s)" and d: "currentDomain (ui s) = Some name" and n: "name \<noteq> []"
    and r: "fst (registerDomain env name (paymentMethodValue (ui s)) (startAttempt s)) = Inr res"
  shows "newFrames s (handleDomainRegistration env s)
           \<in> {[[], [1], [1], [], [2], [], [3], [], [4], [4], [4], [4], []],
              [[], [1], [1], [], [2], [], [3], [], [4], [4], [4], [4], [], []]}"
proof -
  obtain s5 where g: "registerDomain env name (paymentMethodValue (ui s)) (startAttempt s)
      = (Inr res, s5)"
    using r by (cases "registerDomain env name (paymentMethodValue (ui s)) (startAttempt s)") simp
  with ui_registerDomain [of env name "paymentMethodValue (ui s)" "startAttempt s"]
  have u5: "ui s5 = ui (startAttempt s)" by simp
  with startAttempt_ui [of s] have a5: "activeSteps (ui s5) = [2]"
    and f5: "frames (ui s5) = frames (ui s) @ [[], [1], [1], [], [2]]" by simp_all
  from afterRegistration_frames [OF a5, of env res] f5
  have "frames (ui (afterRegistration env res s5))
           = frames (ui s) @ [[], [1], [1], [], [2], [], [3], [], [4], [4], [4], [4], []]
         \<or> frames (ui (afterRegistration env res s5))
           = frames (ui s) @ [[], [1], [1], [], [2], [], [3], [], [4], [4], [4], [4], [], []]"
    by simp
  with c d n g show ?thesis
    by (auto simp: handleDomainRegistration_def Let_def newFrames_def)
qed

text \<open>
  Claim C4. Within one registration attempt the steps become active in the order 1, 2,
  3, 4: the sequence of active steps is a prefix of 1, 2, 3, 4, so that no step is
  visited twice, none is revisited and none is skipped, and no two steps are active at
  once. The attempt shows no step at all when it does not start, stops after step 2 when
  registerDomain throws, and runs through all four steps otherwise. (The status panel and
  the handler both set step 1 active; the second setting finds it active already.)
\<close>

theorem steps_forward_only:
  "prefix (stepSequence (newFrames s (handleDomainRegistration env s))) [1, 2, 3, 4]
   \<and> (\<forall>f \<in> set (newFrames s (handleDomainRegistration env s)). length f \<le> 1)
   \<and> (\<not> isConnected (wm s) \<or> currentDomain (ui s) = None \<or> currentDomain (ui s) = Some [] \<longrightarrow>
        newFrames s (handleDomainRegistration env s) = [])
   \<and> (isConnected (wm s) \<and> currentDomain (ui s) = Some name \<and> name \<noteq> [] \<longrightarrow>
        (case fst (registerDomain env name (paymentMethodValue (ui s)) (startAttempt s)) of
           Inl e \<Rightarrow> stepSequence (newFrames s (handleDomainRegistration env s)) = [1, 2]
         | Inr res \<Rightarrow> stepSequence (newFrames s (handleDomainRegistration env s)) = [1, 2, 3, 4]))"
proof -
  have cases3: "newFrames s (handleDomainRegistration env s)
           \<in> {[], [[], [1], [1], [], [2], []],
              [[], [1], [1], [], [2], [], [3], [], [4], [4], [4], [4], []],
              [[], [1], [1], [], [2], [], [3], [], [4], [4], [4], [4], [], []]}"
  proof (cases "\<not> isConnected (wm s) \<or> currentDomain (ui s) = None \<or> currentDomain (ui s) = Some []")
    case True
    from handler_not_started [OF this, of env] show ?thesis by simp
  next
    case False
    then obtain nm where h: "isConnected (wm s)" "currentDomain (ui s) = Some nm" "nm \<noteq> []"
      by auto
    show ?thesis
    proof (cases "fst (registerDomain env nm (paymentMethodValue (ui s)) (startAttempt s))")
      case (Inl e)
      from handler_failed [OF h this] show ?thesis by simp
    next
      case (Inr res)
      from handler_registered [OF h this] show ?thesis by auto
    qed
  qed
  then consider "newFrames s (handleDomainRegistration env s) = []"
    | "newFrames s (handleDomainRegistration env s) = [[], [1], [1], [], [2], []]"
    | "newFrames s (handleDomainRegistration env s)
         = [[], [1], [1], [], [2], [], [3], [], [4], [4], [4], [4], []]"
    | "newFrames s (handleDomainRegistration env s)
         = [[], [1], [1], [], [2], [], [3], [], [4], [4], [4], [4], [], []]"
    by blast
  then have p: "prefix (stepSequence (newFrames s (handleDomainRegistration env s))) [1, 2, 3, 4]"
    by cases (simp_all add: stepSequence_def)
  from cases3 have l: "\<forall>f \<in> set (newFrames s (handleDomainRegistration env s)). length f \<le> 1"
    by auto
  have o: "\<not> isConnected (wm s) \<or> currentDomain (ui s) = None \<or> currentDomain (ui s) = Some [] \<longrightarrow>
        newFrames s (handleDomainRegistration env s) = []"
    using handler_not_started [of s env] by blast
  have q: "isConnected (wm s) \<and> currentDomain (ui s) = Some name \<and> name \<noteq> [] \<longrightarrow>
        (case fst (registerDomain env name (paymentMethodValue (ui s)) (startAttempt s)) of
           Inl e \<Rightarrow> stepSequence (newFrames s (handleDomainRegistration env s)) = [1, 2]
         | Inr res \<Rightarrow> stepSequence (newFrames s (handleDomainRegistration env s)) = [1, 2, 3, 4])"
  proof
    assume h: "isConnected (wm s) \<and> currentDomain (ui s) = Some name \<and> name \<noteq> []"
    show "case fst (registerDomain env name (paymentMethodValue (ui s)) (startAttempt s)) of
           Inl e \<Rightarrow> stepSequence (newFrames s (handleDomainRegistration env s)) = [1, 2]
         | Inr res \<Rightarrow> stepSequence (newFrames s (handleDomainRegistration env s)) = [1, 2, 3, 4]"
    proof (cases "fst (registerDomain env name (paymentMethodValue (ui s)) (startAttempt s))")
      case (Inl e)
      from h handler_failed [of s name env e] Inl show ?thesis by (simp add: stepSequence_def)
    next
      case (Inr res)
      from h handler_registered [of s name env res] Inr show ?thesis
        by (auto simp: stepSequence_def)
    qed
  qed
  from p l o q show ?thesis by blast
qed

theorem steps_forward_only_witness:
  "stepSequence (newFrames (stubSys 10) (handleDomainRegistration stubEnv (stubSys 10)))
     = [1, 2, 3, 4]
   \<and> stepSequence (newFrames (stubSys 0) (handleDomainRegistration stubEnv (stubSys 0))) = [1, 2]
   \<and> newFrames ((stubSys 0)\<lparr>wm := (wm (stubSys 0))\<lparr>isConnected := False\<rparr>\<rparr>)
        (handleDomainRegistration stubEnv
           ((stubSys 0)\<lparr>wm := (wm (stubSys 0))\<lparr>isConnected := False\<rparr>\<rparr>)) = []
   \<and> list_all (\<lambda>f. length f \<le> 1)
         (newFrames (stubSys 10) (handleDomainRegistration stubEnv (stubSys 10)))"
proof -
  have v: "isValid (validateDomainName ''myname'')"
    by (simp add: validateDomainName_def valid_def invalid_def validCharRegex_test_def
        inCharClass_def startsWith_def endsWith_def)
  have q: "totalPrice (quotePrice ''myname'') = 6052837899185947 / 288230376151711744"
    by (simp add: total_by_length)
  have h: "isConnected (wm (stubSys w))" "currentDomain (ui (stubSys w)) = Some ''myname''"
    "paymentMethodValue (ui (stubSys w)) = ''SOL''" for w
    by (simp_all add: stubSys_def stubUi_def)
  define U0 where "U0 = ui (startAttempt (stubSys 0))"
  have s0: "startAttempt (stubSys 0)
      = \<lparr>wm = wm (stubSys 0), ui = U0, world = 0, calls = [EvSleep 1000]\<rparr>"
    by (simp add: U0_def startAttempt_def Let_def onUi_def delay_def emit_def stubSys_def)
  have r0: "\<exists>e. fst (registerDomain stubEnv ''myname'' ''SOL'' (startAttempt (stubSys 0))) = Inl e"
    unfolding s0
    by (simp add: registerDomain_def registerDomain_try_def checkDomainAvailability_def v q
        getBalance_def numeral_3_eq_3 connection_getBalance_def delay_def emit_def Let_def
        stubEnv_def stubSys_def)
  define U1 where "U1 = ui (startAttempt (stubSys 10))"
  have s1: "startAttempt (stubSys 10)
      = \<lparr>wm = wm (stubSys 10), ui = U1, world = 10, calls = [EvSleep 1000]\<rparr>"
    by (simp add: U1_def startAttempt_def Let_def onUi_def delay_def emit_def stubSys_def)
  have r1: "\<exists>res. fst (registerDomain stubEnv ''myname'' ''SOL'' (startAttempt (stubSys 10)))
              = Inr res"
    unfolding s1
    by (simp add: registerDomain_def registerDomain_try_def checkDomainAvailability_def v q
        getBalance_def numeral_3_eq_3 connection_getBalance_def delay_def emit_def Let_def
        buildAndSend_def signAndSendTransaction_def signAndSend_try_def race_def
        stubEnv_def stubSys_def sample_balances)
  from r0 obtain e
    where e: "fst (registerDomain stubEnv ''myname'' ''SOL'' (startAttempt (stubSys 0))) = Inl e"
    by blast
  from r1 obtain res
    where res: "fst (registerDomain stubEnv ''myname'' ''SOL'' (startAttempt (stubSys 10)))
                = Inr res"
    by blast
  have a: "stepSequence (newFrames (stubSys 10) (handleDomainRegistration stubEnv (stubSys 10)))
     = [1, 2, 3, 4]"
    using steps_forward_only [of "stubSys 10" stubEnv "''myname''"] h [of 10] res by simp
  have b: "stepSequence (newFrames (stubSys 0) (handleDomainRegistration stubEnv (stubSys 0)))
     = [1, 2]"
    using steps_forward_only [of "stubSys 0" stubEnv "''myname''"] h [of 0] e by simp
  have c: "newFrames ((stubSys 0)\<lparr>wm := (wm (stubSys 0))\<lparr>isConnected := False\<rparr>\<rparr>)
        (handleDomainRegistration stubEnv
           ((stubSys 0)\<lparr>wm := (wm (stubSys 0))\<lparr>isConnected := False\<rparr>\<rparr>)) = []"
    using steps_forward_only [of "(stubSys 0)\<lparr>wm := (wm (stubSys 0))\<lparr>isConnected := False\<rparr>\<rparr>"
        stubEnv]
    by simp
  have d: "list_all (\<lambda>f. length f \<le> 1)
         (newFrames (stubSys 10) (handleDomainRegistration stubEnv (stubSys 10)))"
    using steps_forward_only [of "stubSys 10" stubEnv] by (simp add: list_all_iff)
  from a b c d show ?thesis by blast
qed

end
